theory Spec2Isabelle
  imports Complex_Main
begin

section \<open>JavaScript strings\<close>

text \<open>
  A JavaScript string is a sequence of UTF-16 code units. A code unit is modelled by its
  number, a string by the list of its code units, so that \<open>length\<close> is the program's
  \<open>.length\<close> and a Cyrillic literal of the source has one element per letter.
  \<open>js\<close> writes an ASCII literal. Numbers that the program only compares, adds and
  rounds are reals or integers here; \<open>NaN\<close> is modelled where the program computes
  one, in the score of the auditor, and not as an input.
\<close>

type_synonym jschar = nat
type_synonym jsstring = "jschar list"

abbreviation js :: "string \<Rightarrow> jsstring" where
  "js s \<equiv> map of_char s"

text \<open>\<open>s.split(d)\<close> for a one-character separator, and \<open>xs.join(sep)\<close>.\<close>

fun split_on :: "jschar \<Rightarrow> jsstring \<Rightarrow> jsstring list" where
  "split_on d [] = [[]]"
| "split_on d (c # cs) =
     (if c = d then [] # split_on d cs
      else (case split_on d cs of [] \<Rightarrow> [[c]] | l # ls \<Rightarrow> (c # l) # ls))"

fun join :: "jsstring \<Rightarrow> jsstring list \<Rightarrow> jsstring" where
  "join sep [] = []"
| "join sep [x] = x"
| "join sep (x # y # ys) = x @ sep @ join sep (y # ys)"

text \<open>\<open>xs.slice(a, b)\<close> for \<open>0 \<le> a\<close> and \<open>0 \<le> b \<le> xs.length\<close>.\<close>

definition slice :: "nat \<Rightarrow> nat \<Rightarrow> 'a list \<Rightarrow> 'a list" where
  "slice a b xs = take (b - a) (drop a xs)"

text \<open>\<open>s.indexOf(pat)\<close> (\<open>None\<close> for -1) and \<open>s.includes(pat)\<close>.\<close>

fun indexOf :: "jsstring \<Rightarrow> jsstring \<Rightarrow> nat option" where
  "indexOf [] pat = (if pat = [] then Some 0 else None)"
| "indexOf (c # cs) pat =
     (if take (length pat) (c # cs) = pat then Some 0
      else map_option Suc (indexOf cs pat))"

definition includes_str :: "jsstring \<Rightarrow> jsstring \<Rightarrow> bool" where
  "includes_str s pat \<longleftrightarrow> indexOf s pat \<noteq> None"

text \<open>The decimal digits of a non-negative integer, as a template literal prints it.\<close>

function show_nat :: "nat \<Rightarrow> jsstring" where
  "show_nat n = (if n < 10 then [48 + n] else show_nat (n div 10) @ [48 + n mod 10])"
  by pat_completeness auto
termination
  by (relation "measure id") auto

declare show_nat.simps [simp del]

text \<open>
  \<open>GetSubstitution\<close> of ECMAScript: the replacement text of \<open>String.prototype.replace\<close>
  for the template \<open>tpl\<close>, where \<open>m\<close> is the matched text, \<open>k\<close> its position in \<open>s\<close>
  and \<open>caps\<close> the captures (none when the pattern is a string; named groups do not occur).
  \<open>subst_ref\<close> reads the template after a dollar sign and returns the text to insert
  and how many characters of the template it used up.
\<close>

definition isDigit :: "jschar \<Rightarrow> bool" where
  "isDigit c \<longleftrightarrow> 48 \<le> c \<and> c \<le> 57"

definition capture :: "jsstring list \<Rightarrow> nat \<Rightarrow> jsstring option" where
  "capture caps i = (if 1 \<le> i \<and> i \<le> length caps then Some (caps ! (i - 1)) else None)"

definition one_digit_ref :: "jsstring list \<Rightarrow> jschar \<Rightarrow> jsstring \<times> nat" where
  "one_digit_ref caps d =
     (case capture caps (d - 48) of Some t \<Rightarrow> (t, 1) | None \<Rightarrow> ([36, d], 1))"

definition subst_ref ::
  "jsstring \<Rightarrow> jsstring \<Rightarrow> nat \<Rightarrow> jsstring list \<Rightarrow> jsstring \<Rightarrow> jsstring \<times> nat" where
  "subst_ref m s k caps rest =
     (case rest of
        [] \<Rightarrow> ([36], 0)
      | d # rest' \<Rightarrow>
          if d = 36 then ([36], 1)
          else if d = 38 then (m, 1)
          else if d = 96 then (take k s, 1)
          else if d = 39 then (drop (k + length m) s, 1)
          else if isDigit d then
            (case rest' of
               [] \<Rightarrow> one_digit_ref caps d
             | e # _ \<Rightarrow>
                 (case (if isDigit e then capture caps ((d - 48) * 10 + (e - 48)) else None) of
                    Some t \<Rightarrow> (t, 2)
                  | None \<Rightarrow> one_digit_ref caps d))
          else ([36], 0))"

function getSubstitution ::
  "jsstring \<Rightarrow> jsstring \<Rightarrow> nat \<Rightarrow> jsstring list \<Rightarrow> jsstring \<Rightarrow> jsstring" where
  "getSubstitution m s k caps [] = []"
| "getSubstitution m s k caps (c # cs) =
     (if c = 36
      then fst (subst_ref m s k caps cs)
             @ getSubstitution m s k caps (drop (snd (subst_ref m s k caps cs)) cs)
      else c # getSubstitution m s k caps cs)"
  by pat_completeness auto
termination
  by (relation "measure (\<lambda>(m, s, k, caps, tpl). length tpl)") auto

text \<open>\<open>s.replace(pat, tpl)\<close> with a string pattern: the first occurrence only.\<close>

definition replace_str :: "jsstring \<Rightarrow> jsstring \<Rightarrow> jsstring \<Rightarrow> jsstring" where
  "replace_str s pat tpl =
     (case indexOf s pat of
        None \<Rightarrow> s
      | Some k \<Rightarrow> take k s @ getSubstitution pat s k [] tpl @ drop (k + length pat) s)"

section \<open>Regular expressions\<close>

text \<open>
  The fragment of ECMAScript regular expressions that the program's patterns use, with the
  backtracking semantics of the language: \<open>rxm ic r cur\<close> lists, in the order in which
  the matcher tries them, the positions at which a match of \<open>r\<close> started at \<open>cur\<close> can
  end. A position is the code unit before it (if any) and the rest of the input.
  \<open>ic\<close> is the flag \<open>i\<close>. A repetition never iterates on an empty match.

  \<open>canonicalize\<close> is the case folding of the flag \<open>i\<close> without the flag \<open>u\<close>: the
  upper-case mapping, on the code units whose canonical form is a character of one of the
  program's patterns (ASCII and Cyrillic letters); any other code unit stands for itself,
  which never changes whether it equals a pattern character.
\<close>

definition isLineTerminator :: "jschar \<Rightarrow> bool" where
  "isLineTerminator c \<longleftrightarrow> c = 10 \<or> c = 13 \<or> c = 8232 \<or> c = 8233"

definition isWhiteSpace :: "jschar \<Rightarrow> bool" where
  "isWhiteSpace c \<longleftrightarrow>
     c = 32 \<or> c = 9 \<or> c = 11 \<or> c = 12 \<or> c = 160 \<or> c = 5760
     \<or> (8192 \<le> c \<and> c \<le> 8202) \<or> c = 8239 \<or> c = 8287 \<or> c = 12288 \<or> c = 65279
     \<or> isLineTerminator c"

definition isWordChar :: "jschar \<Rightarrow> bool" where
  "isWordChar c \<longleftrightarrow>
     (97 \<le> c \<and> c \<le> 122) \<or> (65 \<le> c \<and> c \<le> 90) \<or> isDigit c \<or> c = 95"

definition canonicalize :: "bool \<Rightarrow> jschar \<Rightarrow> jschar" where
  "canonicalize ic c =
     (if \<not> ic then c
      else if c < 128 then (if 97 \<le> c \<and> c \<le> 122 then c - 32 else c)
      else if 1072 \<le> c \<and> c \<le> 1103 then c - 32
      else if 1104 \<le> c \<and> c \<le> 1119 then c - 80
      else if c = 7296 then 1042 else if c = 7297 then 1044 else if c = 7298 then 1054
      else if c = 7299 then 1057 else if c = 7300 \<or> c = 7301 then 1058
      else if c = 7302 then 1066
      else c)"

datatype rx =
    Lit jschar
  | Dot
  | Space
  | Digit
  | WordB
  | Eps
  | Cat rx rx
  | Alt rx rx
  | Star rx
  | NotAhead rx

type_synonym cursor = "jschar option \<times> jsstring"

definition wordBefore :: "cursor \<Rightarrow> bool" where
  "wordBefore cur = (case fst cur of None \<Rightarrow> False | Some c \<Rightarrow> isWordChar c)"

definition wordAfter :: "cursor \<Rightarrow> bool" where
  "wordAfter cur = (case snd cur of [] \<Rightarrow> False | c # _ \<Rightarrow> isWordChar c)"

definition step :: "(jschar \<Rightarrow> bool) \<Rightarrow> cursor \<Rightarrow> cursor list" where
  "step P cur = (case snd cur of [] \<Rightarrow> [] | c # cs \<Rightarrow> if P c then [(Some c, cs)] else [])"

fun rxm :: "bool \<Rightarrow> rx \<Rightarrow> cursor \<Rightarrow> cursor list" where
  "rxm ic (Lit p) cur = step (\<lambda>c. canonicalize ic c = canonicalize ic p) cur"
| "rxm ic Dot cur = step (\<lambda>c. \<not> isLineTerminator c) cur"
| "rxm ic Space cur = step isWhiteSpace cur"
| "rxm ic Digit cur = step isDigit cur"
| "rxm ic WordB cur = (if wordBefore cur \<noteq> wordAfter cur then [cur] else [])"
| "rxm ic Eps cur = [cur]"
| "rxm ic (Cat r1 r2) cur = concat (map (rxm ic r2) (rxm ic r1 cur))"
| "rxm ic (Alt r1 r2) cur = rxm ic r1 cur @ rxm ic r2 cur"
| "rxm ic (Star r) cur =
     concat (map (\<lambda>cur'. if length (snd cur') < length (snd cur)
                          then rxm ic (Star r) cur' else [])
                 (rxm ic r cur)) @ [cur]"
| "rxm ic (NotAhead r) cur = (if rxm ic r cur = [] then [cur] else [])"

declare rxm.simps(9) [simp del]

lemmas rxm_Star = rxm.simps(9)

text \<open>
  \<open>exec_from\<close> is one run of the matcher over the input from a position on: the leftmost
  start at which the pattern matches, with the end the matcher finds first.
  \<open>test\<close> is \<open>RegExp.prototype.test\<close> of a pattern without the flags \<open>g\<close> and \<open>y\<close>.
\<close>

definition matched_text :: "cursor \<Rightarrow> cursor \<Rightarrow> jsstring" where
  "matched_text b e = take (length (snd b) - length (snd e)) (snd b)"

fun exec_from ::
  "bool \<Rightarrow> rx \<Rightarrow> jschar option \<Rightarrow> jsstring \<Rightarrow> (cursor \<times> cursor) option" where
  "exec_from ic r p [] =
     (case rxm ic r (p, []) of [] \<Rightarrow> None | e # _ \<Rightarrow> Some ((p, []), e))"
| "exec_from ic r p (c # cs) =
     (case rxm ic r (p, c # cs) of
        [] \<Rightarrow> exec_from ic r (Some c) cs
      | e # _ \<Rightarrow> Some ((p, c # cs), e))"

definition test :: "bool \<Rightarrow> rx \<Rightarrow> jsstring \<Rightarrow> bool" where
  "test ic r s \<longleftrightarrow> exec_from ic r None s \<noteq> None"

text \<open>A sequence of literal characters, and a sequence of patterns.\<close>

fun lit :: "jsstring \<Rightarrow> rx" where
  "lit [] = Eps"
| "lit [c] = Lit c"
| "lit (c # cs) = Cat (Lit c) (lit cs)"

fun cat :: "rx list \<Rightarrow> rx" where
  "cat [] = Eps"
| "cat [r] = r"
| "cat (r # rs) = Cat r (cat rs)"

text \<open>
  \<open>s.match(r)\<close> for a pattern with the flag \<open>g\<close>: the matched texts from left to right,
  each search starting where the last match ended (one further after an empty match).
  The empty list stands for \<open>null\<close>. The three lemmas are what its termination needs:
  the matcher only moves forward.
\<close>

lemma step_length: "e \<in> set (step P cur) \<Longrightarrow> length (snd e) \<le> length (snd cur)"
proof (cases "snd cur")
  case Nil
  assume "e \<in> set (step P cur)"
  with Nil show ?thesis by (simp add: step_def)
next
  case (Cons c cs)
  assume "e \<in> set (step P cur)"
  with Cons have "e = (Some c, cs)" by (simp add: step_def split: if_splits)
  with Cons show ?thesis by simp
qed

lemma rxm_length: "e \<in> set (rxm ic r cur) \<Longrightarrow> length (snd e) \<le> length (snd cur)"
proof (induction ic r cur arbitrary: e rule: rxm.induct)
  case (1 ic p cur)
  then show ?case using step_length by simp
next
  case (2 ic cur)
  then show ?case using step_length by simp
next
  case (3 ic cur)
  then show ?case using step_length by simp
next
  case (4 ic cur)
  then show ?case using step_length by simp
next
  case (5 ic cur)
  then show ?case by (simp split: if_splits)
next
  case (6 ic cur)
  then show ?case by simp
next
  case (7 ic r1 r2 cur)
  from "7.prems" obtain m where m: "m \<in> set (rxm ic r1 cur)" and e: "e \<in> set (rxm ic r2 m)"
    by auto
  from "7.IH"(1) [OF m] "7.IH"(2) [OF m e] show ?case by simp
next
  case (8 ic r1 r2 cur)
  from "8.prems" have "e \<in> set (rxm ic r1 cur) \<or> e \<in> set (rxm ic r2 cur)" by simp
  with "8.IH" show ?case by blast
next
  case (9 ic r cur)
  show ?case
  proof (cases "e = cur")
    case True
    then show ?thesis by simp
  next
    case False
    from "9.prems"
    have "e \<in> set (concat (map (\<lambda>cur'. if length (snd cur') < length (snd cur)
          then rxm ic (Star r) cur' else []) (rxm ic r cur)) @ [cur])"
      by (subst (asm) rxm_Star) assumption
    with False obtain m where m: "m \<in> set (rxm ic r cur)"
      and lt: "length (snd m) < length (snd cur)" and e: "e \<in> set (rxm ic (Star r) m)"
      by (auto split: if_splits)
    from "9.IH"(2) [OF m lt e] lt show ?thesis by simp
  qed
next
  case (10 ic r cur)
  then show ?case by (simp split: if_splits)
qed

lemma exec_from_length:
  "exec_from ic r p s = Some (b, e) \<Longrightarrow>
     length (snd b) \<le> length s \<and> length (snd e) \<le> length (snd b)"
proof (induction s arbitrary: p)
  case Nil
  show ?case
  proof (cases "rxm ic r (p, [])")
    case Nil
    with Nil.prems show ?thesis by simp
  next
    case (Cons e' es)
    with Nil.prems have be: "b = (p, [])" "e = e'" by simp_all
    have "e' \<in> set (rxm ic r (p, []))" using Cons by simp
    from rxm_length [OF this] be show ?thesis by simp
  qed
next
  case (Cons c cs)
  show ?case
  proof (cases "rxm ic r (p, c # cs)")
    case Nil
    with Cons.prems have "exec_from ic r (Some c) cs = Some (b, e)" by simp
    from Cons.IH [OF this] show ?thesis by simp
  next
    case (Cons e' es)
    with Cons.prems have be: "b = (p, c # cs)" "e = e'" by simp_all
    have "e' \<in> set (rxm ic r (p, c # cs))" using Cons by simp
    from rxm_length [OF this] be show ?thesis by simp
  qed
qed

function match_all :: "bool \<Rightarrow> rx \<Rightarrow> jschar option \<Rightarrow> jsstring \<Rightarrow> jsstring list" where
  "match_all ic r p s =
     (case exec_from ic r p s of
        None \<Rightarrow> []
      | Some (b, e) \<Rightarrow>
          matched_text b e #
          (if length (snd e) < length (snd b) then match_all ic r (fst e) (snd e)
           else (case snd b of [] \<Rightarrow> [] | c # cs \<Rightarrow> match_all ic r (Some c) cs)))"
  by pat_completeness auto
termination
proof (relation "measure (\<lambda>(ic, r, p, s). length s)")
  show "wf (measure (\<lambda>(ic, r, p, s). length s))" by simp
next
  fix ic r p s x2 b e
  assume "exec_from ic r p s = Some x2" "(b, e) = x2" "length (snd e) < length (snd b)"
  then show "((ic, r, fst e, snd e), ic, r, p, s) \<in> measure (\<lambda>(ic, r, p, s). length s)"
    using exec_from_length [of ic r p s b e] by (cases e) simp
next
  fix ic r p s x2 b e c cs
  assume "exec_from ic r p s = Some x2" "(b, e) = x2" "snd b = c # cs"
  then show "((ic, r, Some c, cs), ic, r, p, s) \<in> measure (\<lambda>(ic, r, p, s). length s)"
    using exec_from_length [of ic r p s b e] by simp
qed

declare match_all.simps [simp del]

text \<open>
  \<open>s.replace(r, tpl)\<close> for a pattern without the flag \<open>g\<close> whose whole text is one
  capturing group, as both patterns of the patch generator are: capture 1 is the match.
\<close>

definition replace_rx :: "bool \<Rightarrow> rx \<Rightarrow> jsstring \<Rightarrow> jsstring \<Rightarrow> jsstring" where
  "replace_rx ic r s tpl =
     (case exec_from ic r None s of
        None \<Rightarrow> s
      | Some (b, e) \<Rightarrow>
          take (length s - length (snd b)) s
            @ getSubstitution (matched_text b e) s (length s - length (snd b))
                [matched_text b e] tpl
            @ snd e)"

section \<open>Errors\<close>

text \<open>
  What the program throws: \<open>new Error(message)\<close>, the error of \<open>fs.readFileSync\<close> for a
  path that does not resolve, and the \<open>TypeError\<close> of a method call on \<open>undefined\<close>.
\<close>

datatype js_error = Error jsstring | ENOENT jsstring | TypeError

section \<open>NeuroSolidityAuditor: data\<close>

text \<open>
  \<open>interface Vulnerability\<close> and \<open>interface AuditResult\<close> (auditor lines 137-157).
  The fields \<open>id\<close> and \<open>name\<close> carry a prefix, the others keep their names.
  \<open>severity\<close> is declared as the union of five string literals, which
  \<open>known_severity\<close> lists; it is a string here because \<open>calculateSecurityScore\<close> looks
  it up in an object keyed by strings and has a default for a key the object lacks. A
  \<open>Date\<close> is its time value. A \<open>number\<close> that a computation of the source can make
  \<open>NaN\<close> is a \<open>js_number\<close>.
\<close>

datatype js_number = Num int | NaN

record Vulnerability =
  vuln_id :: jsstring
  vuln_name :: jsstring
  severity :: jsstring
  description :: jsstring
  lineStart :: int
  lineEnd :: int
  codeSnippet :: jsstring
  recommendation :: jsstring

record AuditResult =
  contractName :: jsstring
  contractPath :: jsstring
  vulnerabilities :: "Vulnerability list"
  score :: js_number
  timestamp :: nat

definition known_severity :: "jsstring \<Rightarrow> bool" where
  "known_severity sev \<longleftrightarrow>
     sev \<in> set [js ''critical'', js ''high'', js ''medium'', js ''low'', js ''info'']"

text \<open>
  The interfaces of the Python model's answers (auditor lines 25-42). The fields
  \<open>line\<close> and \<open>context\<close> are \<open>line_text\<close> and \<open>line_context\<close>; \<open>vulnerability_score\<close>
  is optional here because \<open>convertModelAuditResult\<close> tests it against \<open>undefined\<close>;
  \<open>features\<close> holds each value as text.
\<close>

record ModelLine =
  line_number :: int
  line_text :: jsstring
  line_context :: jsstring

record ModelVulnerability =
  mv_name :: jsstring
  mv_severity :: jsstring
  mv_confidence :: real
  mv_lines :: "ModelLine list"

record ModelAuditResult =
  is_vulnerable :: bool
  vulnerability_score :: "real option"
  mr_vulnerabilities :: "ModelVulnerability list"
  features :: "(jsstring \<times> jsstring) list"
  mr_error :: "jsstring option"

text \<open>
  \<open>class ModelIntegration\<close> and the state of \<open>class NeuroSolidityAuditor\<close>
  (auditor lines 54-61 and 173-178). \<open>vulnerabilityPatterns\<close> lists the entries of the
  object in the order \<open>Object.entries\<close> yields them; every pattern has the flag \<open>i\<close>.
\<close>

record ModelIntegration =
  pythonPath :: jsstring
  modelBridgePath :: jsstring

record NeuroSolidityAuditor =
  aud_initialized :: bool
  modelLoaded :: bool
  contractsDatabase :: "jsstring list"
  vulnerabilityPatterns :: "(jsstring \<times> rx) list"
  modelIntegration :: "ModelIntegration option"

text \<open>
  What a call of the external model process comes to: \<open>execAsync\<close> rejects, or
  \<open>JSON.parse\<close> throws on its output, or the output parses to a value of the declared
  interface. The text is what the error prints as.
\<close>

datatype 'a model_outcome = ProcessError jsstring | MalformedOutput jsstring | Output 'a

section \<open>NeuroSolidityAuditor: constructor and initialize\<close>

text \<open>The five patterns of the constructor (auditor lines 187-193).\<close>

definition rx_reentrancy :: rx where
  "rx_reentrancy =
     cat [lit (js ''.''), Star Space, lit (js ''call''), Star Space, lit (js ''{''), Star Dot,
          lit (js ''value''), Star Space, lit (js '':''), Star Dot, lit (js ''}''),
          NotAhead (cat [Star Dot, lit (js ''_mutex'')])]"

definition rx_integerOverflow :: rx where
  "rx_integerOverflow =
     Cat (Alt (lit (js ''++''))
            (Alt (lit (js ''+='')) (cat [lit (js ''=''), Star Space, lit (js ''+'')])))
         (NotAhead (cat [Star Dot, lit (js ''SafeMath'')]))"

definition rx_uncheckedReturn :: rx where
  "rx_uncheckedReturn =
     cat [lit (js ''.call''), Star Space, lit (js ''{''), Star Dot, lit (js ''}''),
          NotAhead (cat [Star Dot, lit (js ''require''), Star Space, lit (js ''('')])]"

definition rx_txOrigin :: rx where
  "rx_txOrigin = cat [lit (js ''tx.origin''), NotAhead (cat [Star Dot, lit (js ''!='')])]"

definition rx_unsecuredSelfDestruct :: rx where
  "rx_unsecuredSelfDestruct = Alt (lit (js ''selfdestruct'')) (lit (js ''suicide''))"

definition new_NeuroSolidityAuditor :: NeuroSolidityAuditor where
  "new_NeuroSolidityAuditor =
     \<lparr>aud_initialized = False, modelLoaded = False, contractsDatabase = [],
      vulnerabilityPatterns =
        [(js ''reentrancy'', rx_reentrancy),
         (js ''integerOverflow'', rx_integerOverflow),
         (js ''uncheckedReturn'', rx_uncheckedReturn),
         (js ''txOrigin'', rx_txOrigin),
         (js ''unsecuredSelfDestruct'', rx_unsecuredSelfDestruct)],
      modelIntegration = None\<rparr>"

text \<open>
  \<open>initialize\<close> and \<open>loadContractsDatabase\<close> (auditor lines 199-273). The environment
  gives the resolved path of the model bridge script, whether the TensorFlow model file
  exists and loads, and the file names of the directory of verified contracts when that
  directory exists.
\<close>

record init_env =
  bridge_path :: jsstring
  tf_model_loads :: bool
  verified_contracts :: "jsstring list option"

definition endsWith :: "jsstring \<Rightarrow> jsstring \<Rightarrow> bool" where
  "endsWith s suffix \<longleftrightarrow>
     length suffix \<le> length s \<and> drop (length s - length suffix) s = suffix"

definition loadContractsDatabase :: "init_env \<Rightarrow> jsstring list" where
  "loadContractsDatabase env =
     (case verified_contracts env of
        Some files \<Rightarrow> filter (\<lambda>file. endsWith file (js ''.sol'')) files
      | None \<Rightarrow>
          [js ''ERC20.sol'', js ''ERC721.sol'', js ''Ownable.sol'', js ''SafeMath.sol'',
           js ''Pausable.sol''])"

definition auditor_initialize :: "init_env \<Rightarrow> NeuroSolidityAuditor \<Rightarrow> NeuroSolidityAuditor" where
  "auditor_initialize env a =
     (if aud_initialized a then a
      else a\<lparr>modelIntegration :=
                 Some \<lparr>pythonPath = js ''python'', modelBridgePath = bridge_path env\<rparr>,
              modelLoaded := tf_model_loads env,
              contractsDatabase := loadContractsDatabase env,
              aud_initialized := True\<rparr>)"

section \<open>NeuroSolidityAuditor: lookup tables\<close>

text \<open>
  The Cyrillic literals of the lookup tables (auditor lines 687-745) and of the error
  messages, as code units.
\<close>

definition msg_auditor_not_initialized :: jsstring where
  "msg_auditor_not_initialized =
     js ''NeuroSolidityAuditor '' @ [1085, 1077] @ js '' ''
     @ [1080, 1085, 1080, 1094, 1080, 1072, 1083, 1080, 1079, 1080, 1088]
     @ [1086, 1074, 1072, 1085]"

definition desc_reentrancy :: jsstring where
  "desc_reentrancy =
     [1059, 1103, 1079, 1074, 1080, 1084, 1086, 1089, 1090, 1100] @ js '' ''
     @ [1087, 1086, 1074, 1090, 1086, 1088, 1085, 1086, 1075, 1086] @ js '' ''
     @ [1074, 1093, 1086, 1076, 1072] @ js '' ''
     @ [1087, 1086, 1079, 1074, 1086, 1083, 1103, 1077, 1090] @ js '' ''
     @ [1072, 1090, 1072, 1082, 1091, 1102, 1097, 1077, 1084, 1091] @ js '' ''
     @ [1074, 1099, 1079, 1099, 1074, 1072, 1090, 1100] @ js '' ''
     @ [1092, 1091, 1085, 1082, 1094, 1080, 1102] @ js '' ''
     @ [1082, 1086, 1085, 1090, 1088, 1072, 1082, 1090, 1072] @ js '' ''
     @ [1088, 1077, 1082, 1091, 1088, 1089, 1080, 1074, 1085, 1086] @ js '' ''
     @ [1076, 1086] @ js '' ''
     @ [1079, 1072, 1074, 1077, 1088, 1096, 1077, 1085, 1080, 1103] @ js '' ''
     @ [1087, 1077, 1088, 1074, 1086, 1075, 1086] @ js '' ''
     @ [1074, 1099, 1079, 1086, 1074, 1072] @ js ''.''"

definition desc_integerOverflow :: jsstring where
  "desc_integerOverflow =
     [1055, 1077, 1088, 1077, 1087, 1086, 1083, 1085, 1077, 1085, 1080] @ [1077]
     @ js '' '' @ [1094, 1077, 1083, 1086, 1095, 1080, 1089, 1083, 1077, 1085, 1085]
     @ [1086, 1075, 1086] @ js '' '' @ [1090, 1080, 1087, 1072] @ js '' ''
     @ [1084, 1086, 1078, 1077, 1090] @ js '' ''
     @ [1087, 1088, 1080, 1074, 1077, 1089, 1090, 1080] @ js '' '' @ [1082] @ js '' ''
     @ [1085, 1077, 1086, 1078, 1080, 1076, 1072, 1085, 1085, 1099, 1084] @ js '' ''
     @ [1079, 1085, 1072, 1095, 1077, 1085, 1080, 1103, 1084] @ js '' ''
     @ [1087, 1077, 1088, 1077, 1084, 1077, 1085, 1085, 1099, 1093] @ js ''.''"

definition desc_uncheckedReturn :: jsstring where
  "desc_uncheckedReturn =
     [1053, 1077, 1086, 1073, 1088, 1072, 1073, 1086, 1090, 1072, 1085]
     @ [1085, 1086, 1077] @ js '' ''
     @ [1074, 1086, 1079, 1074, 1088, 1072, 1097, 1072, 1077, 1084, 1086] @ [1077]
     @ js '' '' @ [1079, 1085, 1072, 1095, 1077, 1085, 1080, 1077] @ js '' ''
     @ [1084, 1086, 1078, 1077, 1090] @ js '' ''
     @ [1087, 1088, 1080, 1074, 1077, 1089, 1090, 1080] @ js '' '' @ [1082] @ js '' ''
     @ [1085, 1077, 1086, 1078, 1080, 1076, 1072, 1085, 1085, 1086, 1084] @ [1091]
     @ js '' '' @ [1087, 1086, 1074, 1077, 1076, 1077, 1085, 1080, 1102] @ js '' ''
     @ [1082, 1086, 1085, 1090, 1088, 1072, 1082, 1090, 1072] @ js ''.''"

definition desc_txOrigin :: jsstring where
  "desc_txOrigin =
     [1048, 1089, 1087, 1086, 1083, 1100, 1079, 1086, 1074, 1072, 1085] @ [1080, 1077]
     @ js '' tx.origin '' @ [1076, 1083, 1103] @ js '' ''
     @ [1072, 1091, 1090, 1077, 1085, 1090, 1080, 1092, 1080, 1082, 1072]
     @ [1094, 1080, 1080] @ js '' ''
     @ [1085, 1077, 1073, 1077, 1079, 1086, 1087, 1072, 1089, 1085, 1086] @ js '' ''
     @ [1080] @ js '' '' @ [1084, 1086, 1078, 1077, 1090] @ js '' ''
     @ [1087, 1088, 1080, 1074, 1077, 1089, 1090, 1080] @ js '' '' @ [1082] @ js '' ''
     @ [1092, 1080, 1096, 1080, 1085, 1075, 1086, 1074, 1099, 1084] @ js '' ''
     @ [1072, 1090, 1072, 1082, 1072, 1084] @ js ''.''"

definition desc_unsecuredSelfDestruct :: jsstring where
  "desc_unsecuredSelfDestruct =
     [1053, 1077, 1079, 1072, 1097, 1080, 1097, 1077, 1085, 1085, 1099] @ [1081]
     @ js '' '' @ [1074, 1099, 1079, 1086, 1074] @ js '' selfdestruct ''
     @ [1084, 1086, 1078, 1077, 1090] @ js '' ''
     @ [1087, 1086, 1079, 1074, 1086, 1083, 1080, 1090, 1100] @ js '' ''
     @ [1072, 1090, 1072, 1082, 1091, 1102, 1097, 1077, 1084, 1091] @ js '' ''
     @ [1091, 1085, 1080, 1095, 1090, 1086, 1078, 1080, 1090, 1100] @ js '' ''
     @ [1082, 1086, 1085, 1090, 1088, 1072, 1082, 1090] @ js ''.''"

definition desc_unknown :: jsstring where
  "desc_unknown =
     [1053, 1077, 1080, 1079, 1074, 1077, 1089, 1090, 1085, 1072, 1103] @ js '' ''
     @ [1091, 1103, 1079, 1074, 1080, 1084, 1086, 1089, 1090, 1100] @ js '', ''
     @ [1090, 1088, 1077, 1073, 1091, 1077, 1090, 1089, 1103] @ js '' ''
     @ [1088, 1091, 1095, 1085, 1086, 1081] @ js '' ''
     @ [1072, 1085, 1072, 1083, 1080, 1079] @ js ''.''"

definition rec_reentrancy :: jsstring where
  "rec_reentrancy =
     [1048, 1089, 1087, 1086, 1083, 1100, 1079, 1091, 1081, 1090, 1077] @ js '' ''
     @ [1087, 1072, 1090, 1090, 1077, 1088, 1085]
     @ js '' Checks-Effects-Interactions '' @ [1080, 1083, 1080] @ js '' ''
     @ [1084, 1100, 1102, 1090, 1077, 1082, 1089] @ js '' '' @ [1076, 1083, 1103]
     @ js '' '' @ [1079, 1072, 1097, 1080, 1090, 1099] @ js '' '' @ [1086, 1090]
     @ js '' reentrancy '' @ [1072, 1090, 1072, 1082] @ js ''.''"

definition rec_integerOverflow :: jsstring where
  "rec_integerOverflow =
     [1048, 1089, 1087, 1086, 1083, 1100, 1079, 1091, 1081, 1090, 1077] @ js '' ''
     @ [1073, 1080, 1073, 1083, 1080, 1086, 1090, 1077, 1082, 1091] @ js '' SafeMath ''
     @ [1076, 1083, 1103] @ js '' ''
     @ [1072, 1088, 1080, 1092, 1084, 1077, 1090, 1080, 1095, 1077, 1089]
     @ [1082, 1080, 1093] @ js '' '' @ [1086, 1087, 1077, 1088, 1072, 1094, 1080, 1081]
     @ js ''.''"

definition rec_uncheckedReturn :: jsstring where
  "rec_uncheckedReturn =
     [1042, 1089, 1077, 1075, 1076, 1072] @ js '' ''
     @ [1087, 1088, 1086, 1074, 1077, 1088, 1103, 1081, 1090, 1077] @ js '' ''
     @ [1074, 1086, 1079, 1074, 1088, 1072, 1097, 1072, 1077, 1084, 1099] @ [1077]
     @ js '' '' @ [1079, 1085, 1072, 1095, 1077, 1085, 1080, 1103] @ js '' ''
     @ [1085, 1080, 1079, 1082, 1086, 1091, 1088, 1086, 1074, 1085, 1077]
     @ [1074, 1099, 1093] @ js '' '' @ [1074, 1099, 1079, 1086, 1074, 1086, 1074]
     @ js '' '' @ [1089] @ js '' '' @ [1087, 1086, 1084, 1086, 1097, 1100, 1102]
     @ js '' require().''"

definition rec_txOrigin :: jsstring where
  "rec_txOrigin =
     [1048, 1089, 1087, 1086, 1083, 1100, 1079, 1091, 1081, 1090, 1077]
     @ js '' msg.sender '' @ [1074, 1084, 1077, 1089, 1090, 1086] @ js '' tx.origin ''
     @ [1076, 1083, 1103] @ js '' ''
     @ [1072, 1091, 1090, 1077, 1085, 1090, 1080, 1092, 1080, 1082, 1072]
     @ [1094, 1080, 1080] @ js ''.''"

definition rec_unsecuredSelfDestruct :: jsstring where
  "rec_unsecuredSelfDestruct =
     [1044, 1086, 1073, 1072, 1074, 1100, 1090, 1077] @ js '' ''
     @ [1087, 1088, 1086, 1074, 1077, 1088, 1082, 1080] @ js '' ''
     @ [1076, 1086, 1089, 1090, 1091, 1087, 1072] @ js '' ''
     @ [1087, 1077, 1088, 1077, 1076] @ js '' ''
     @ [1074, 1099, 1079, 1086, 1074, 1086, 1084] @ js '' selfdestruct.''"

definition rec_unknown :: jsstring where
  "rec_unknown =
     [1058, 1088, 1077, 1073, 1091, 1077, 1090, 1089, 1103] @ js '' ''
     @ [1088, 1091, 1095, 1085, 1086, 1081] @ js '' ''
     @ [1072, 1085, 1072, 1083, 1080, 1079] @ js '' '' @ [1080] @ js '' ''
     @ [1080, 1089, 1087, 1088, 1072, 1074, 1083, 1077, 1085, 1080, 1077] @ js ''.''"

definition patch_error_prefix :: jsstring where
  "patch_error_prefix =
     js ''// '' @ [1054, 1096, 1080, 1073, 1082, 1072] @ js '' '' @ [1087, 1088, 1080]
     @ js '' '' @ [1075, 1077, 1085, 1077, 1088, 1072, 1094, 1080, 1080] @ js '' ''
     @ [1087, 1072, 1090, 1095, 1072] @ js '': ''"

text \<open>
  \<open>table[key] || dflt\<close> for a table of strings: the default also replaces an empty
  entry. The tables are those of \<open>getVulnerabilityName\<close>, \<open>getVulnerabilitySeverity\<close>,
  \<open>getVulnerabilityDescription\<close>, \<open>getVulnerabilityRecommendation\<close> and of the two
  lookups by name (auditor lines 655-745).
\<close>

definition lookup_or :: "(jsstring \<times> jsstring) list \<Rightarrow> jsstring \<Rightarrow> jsstring \<Rightarrow> jsstring" where
  "lookup_or table key dflt =
     (case map_of table key of None \<Rightarrow> dflt | Some v \<Rightarrow> (if v = [] then dflt else v))"

definition getVulnerabilityName :: "jsstring \<Rightarrow> jsstring" where
  "getVulnerabilityName key =
     lookup_or
       [(js ''reentrancy'', js ''Reentrancy Vulnerability''),
        (js ''integerOverflow'', js ''Integer Overflow''),
        (js ''uncheckedReturn'', js ''Unchecked Return Value''),
        (js ''txOrigin'', js ''tx.origin Authentication''),
        (js ''unsecuredSelfDestruct'', js ''Unsecured Self-Destruct'')]
       key (js ''Unknown Vulnerability'')"

definition getVulnerabilitySeverity :: "jsstring \<Rightarrow> jsstring" where
  "getVulnerabilitySeverity key =
     lookup_or
       [(js ''reentrancy'', js ''critical''),
        (js ''integerOverflow'', js ''high''),
        (js ''uncheckedReturn'', js ''medium''),
        (js ''txOrigin'', js ''high''),
        (js ''unsecuredSelfDestruct'', js ''critical'')]
       key (js ''medium'')"

definition getVulnerabilityDescription :: "jsstring \<Rightarrow> jsstring" where
  "getVulnerabilityDescription key =
     lookup_or
       [(js ''reentrancy'', desc_reentrancy),
        (js ''integerOverflow'', desc_integerOverflow),
        (js ''uncheckedReturn'', desc_uncheckedReturn),
        (js ''txOrigin'', desc_txOrigin),
        (js ''unsecuredSelfDestruct'', desc_unsecuredSelfDestruct)]
       key desc_unknown"

definition getVulnerabilityDescriptionByName :: "jsstring \<Rightarrow> jsstring" where
  "getVulnerabilityDescriptionByName nm =
     lookup_or
       [(js ''Reentrancy Vulnerability'', desc_reentrancy),
        (js ''Integer Overflow'', desc_integerOverflow),
        (js ''Unchecked Return Value'', desc_uncheckedReturn),
        (js ''tx.origin Authentication'', desc_txOrigin),
        (js ''Unsecured Self-Destruct'', desc_unsecuredSelfDestruct)]
       nm desc_unknown"

definition getVulnerabilityRecommendation :: "jsstring \<Rightarrow> jsstring" where
  "getVulnerabilityRecommendation key =
     lookup_or
       [(js ''reentrancy'', rec_reentrancy),
        (js ''integerOverflow'', rec_integerOverflow),
        (js ''uncheckedReturn'', rec_uncheckedReturn),
        (js ''txOrigin'', rec_txOrigin),
        (js ''unsecuredSelfDestruct'', rec_unsecuredSelfDestruct)]
       key rec_unknown"

definition getVulnerabilityRecommendationByName :: "jsstring \<Rightarrow> jsstring" where
  "getVulnerabilityRecommendationByName nm =
     lookup_or
       [(js ''Reentrancy Vulnerability'', rec_reentrancy),
        (js ''Integer Overflow'', rec_integerOverflow),
        (js ''Unchecked Return Value'', rec_uncheckedReturn),
        (js ''tx.origin Authentication'', rec_txOrigin),
        (js ''Unsecured Self-Destruct'', rec_unsecuredSelfDestruct)]
       nm rec_unknown"

text \<open>\<open>mapSeverity\<close> (auditor lines 449-464).\<close>

definition mapSeverity :: "jsstring \<Rightarrow> jsstring" where
  "mapSeverity sev =
     (if sev = js ''critical'' then js ''critical''
      else if sev = js ''high'' then js ''high''
      else if sev = js ''medium'' then js ''medium''
      else if sev = js ''low'' then js ''low''
      else if sev = js ''info'' then js ''info''
      else js ''medium'')"

section \<open>Scorer\<close>

text \<open>
  \<open>calculateSecurityScore\<close> (auditor lines 751-777). \<open>severityWeights\<close> is the object
  literal of the source. Reading a property of it gives the number stored for one of its
  five keys, the function or object that every object inherits from \<open>Object.prototype\<close>
  for one of the names of \<open>object_prototype_names\<close>, and \<open>undefined\<close> for any other
  name. \<open>weight_of sev\<close> is \<open>severityWeights[sev] || 0\<close>: \<open>Some w\<close> for a number (the
  stored one, or 0 in place of \<open>undefined\<close>), \<open>None\<close> for an inherited value, which is
  truthy and stays.
\<close>

definition severityWeights :: "(jsstring \<times> int) list" where
  "severityWeights =
     [(js ''critical'', 30), (js ''high'', 20), (js ''medium'', 10), (js ''low'', 5),
      (js ''info'', 1)]"

definition object_prototype_names :: "jsstring list" where
  "object_prototype_names =
     [js ''constructor'', js ''hasOwnProperty'', js ''isPrototypeOf'',
      js ''propertyIsEnumerable'', js ''toLocaleString'', js ''toString'', js ''valueOf'',
      js ''__proto__'', js ''__defineGetter__'', js ''__defineSetter__'',
      js ''__lookupGetter__'', js ''__lookupSetter__'']"

definition weight_of :: "jsstring \<Rightarrow> int option" where
  "weight_of sev =
     (case map_of severityWeights sev of
        Some w \<Rightarrow> Some (if w = 0 then 0 else w)
      | None \<Rightarrow> if sev \<in> set object_prototype_names then None else Some 0)"

text \<open>
  \<open>penalty_loop\<close> is the \<open>for ... of\<close> loop with its accumulator \<open>totalPenalty\<close>.
  \<open>+=\<close> adds two numbers; with an inherited function or object on the right it
  makes \<open>totalPenalty\<close> a text, the digits of the sum so far followed by the text of the
  function or object, and every later \<open>+=\<close> appends to that text: \<open>None\<close>.
  \<open>Math.min\<close> of such a text and 100 is \<open>NaN\<close>, and so is 100 minus it.
\<close>

fun penalty_loop :: "int option \<Rightarrow> Vulnerability list \<Rightarrow> int option" where
  "penalty_loop totalPenalty [] = totalPenalty"
| "penalty_loop totalPenalty (vuln # rest) =
     penalty_loop
       (case totalPenalty of
          Some p \<Rightarrow> (case weight_of (severity vuln) of Some w \<Rightarrow> Some (p + w) | None \<Rightarrow> None)
        | None \<Rightarrow> None)
       rest"

definition calculateSecurityScore :: "Vulnerability list \<Rightarrow> js_number" where
  "calculateSecurityScore vulns =
     (if length vulns = 0 then Num 100
      else case penalty_loop (Some 0) vulns of
        Some totalPenalty \<Rightarrow> Num (100 - min totalPenalty 100)
      | None \<Rightarrow> NaN)"

section \<open>Scanner\<close>

text \<open>
  The built-in analyzer of \<open>auditContract\<close> (auditor lines 350-395). \<open>now k\<close> is what
  \<open>Date.now()\<close> returns when the finding with index \<open>k\<close> is built. \<open>scan_patterns\<close> is
  the inner loop over the entries of \<open>vulnerabilityPatterns\<close> for line \<open>i\<close>,
  \<open>scan_lines\<close> the outer loop over the lines; both carry the array \<open>vulnerabilities\<close>.
\<close>

definition vulnerability_id :: "nat \<Rightarrow> nat \<Rightarrow> jsstring" where
  "vulnerability_id t n = js ''VULN-'' @ show_nat t @ js ''-'' @ show_nat n"

definition snippet :: "jsstring list \<Rightarrow> nat \<Rightarrow> jsstring" where
  "snippet lns i =
     join [10] (slice (nat (max 0 (int i - 2))) (min (length lns) (i + 3)) lns)"

fun scan_patterns ::
  "(nat \<Rightarrow> nat) \<Rightarrow> jsstring list \<Rightarrow> nat \<Rightarrow> (jsstring \<times> rx) list
     \<Rightarrow> Vulnerability list \<Rightarrow> Vulnerability list" where
  "scan_patterns now lns i [] vulns = vulns"
| "scan_patterns now lns i ((vulnName, pattern) # rest) vulns =
     scan_patterns now lns i rest
       (if test True pattern (lns ! i)
        then vulns @
          [\<lparr>vuln_id = vulnerability_id (now (length vulns)) (length vulns),
            vuln_name = getVulnerabilityName vulnName,
            severity = getVulnerabilitySeverity vulnName,
            description = getVulnerabilityDescription vulnName,
            lineStart = int i + 1,
            lineEnd = int i + 1,
            codeSnippet = snippet lns i,
            recommendation = getVulnerabilityRecommendation vulnName\<rparr>]
        else vulns)"

function scan_lines ::
  "(nat \<Rightarrow> nat) \<Rightarrow> jsstring list \<Rightarrow> nat \<Rightarrow> (jsstring \<times> rx) list
     \<Rightarrow> Vulnerability list \<Rightarrow> Vulnerability list" where
  "scan_lines now lns i patterns vulns =
     (if i < length lns
      then scan_lines now lns (i + 1) patterns (scan_patterns now lns i patterns vulns)
      else vulns)"
  by pat_completeness auto
termination
  by (relation "measure (\<lambda>(now, lns, i, patterns, vulns). length lns - i)") auto

declare scan_lines.simps [simp del]

text \<open>\<open>path.basename\<close> on a POSIX system.\<close>

definition basename :: "jsstring \<Rightarrow> jsstring" where
  "basename p = rev (takeWhile (\<lambda>c. c \<noteq> 47) (dropWhile (\<lambda>c. c = 47) (rev p)))"

definition builtin_audit ::
  "NeuroSolidityAuditor \<Rightarrow> (nat \<Rightarrow> nat) \<Rightarrow> nat \<Rightarrow> jsstring \<Rightarrow> jsstring \<Rightarrow> AuditResult" where
  "builtin_audit a now date path contractCode =
     (let vulns = scan_lines now (split_on 10 contractCode) 0 (vulnerabilityPatterns a) []
      in \<lparr>contractName = basename path, contractPath = path, vulnerabilities = vulns,
          score = calculateSecurityScore vulns, timestamp = date\<rparr>)"

section \<open>Model integration and auditContract\<close>

text \<open>
  \<open>ModelIntegration.auditContract\<close> (auditor lines 63-76): every failure of the call is
  caught and answered with a fixed result.
\<close>

definition ModelIntegration_auditContract :: "ModelAuditResult model_outcome \<Rightarrow> ModelAuditResult" where
  "ModelIntegration_auditContract outcome =
     (case outcome of
        Output r \<Rightarrow> r
      | ProcessError e \<Rightarrow>
          \<lparr>is_vulnerable = True, vulnerability_score = Some 1, mr_vulnerabilities = [],
           features = [], mr_error = None\<rparr>
      | MalformedOutput e \<Rightarrow>
          \<lparr>is_vulnerable = True, vulnerability_score = Some 1, mr_vulnerabilities = [],
           features = [], mr_error = None\<rparr>)"

text \<open>
  \<open>convertModelAuditResult\<close> (auditor lines 407-443). \<open>convert_vulnerabilities\<close> is
  the \<open>map\<close> with its index; \<open>Math.round x\<close> is \<open>\<lfloor>x + 1/2\<rfloor>\<close> (the rounding of
  floating-point arithmetic is not modelled).
\<close>

fun convert_vulnerabilities ::
  "(nat \<Rightarrow> nat) \<Rightarrow> nat \<Rightarrow> ModelVulnerability list \<Rightarrow> Vulnerability list" where
  "convert_vulnerabilities now index [] = []"
| "convert_vulnerabilities now index (vuln # rest) =
     \<lparr>vuln_id = vulnerability_id (now index) index,
      vuln_name = mv_name vuln,
      severity = mapSeverity (mv_severity vuln),
      description = getVulnerabilityDescriptionByName (mv_name vuln),
      lineStart = (if length (mv_lines vuln) > 0 then line_number (mv_lines vuln ! 0) else 0),
      lineEnd = (if length (mv_lines vuln) > 0
                 then line_number (mv_lines vuln ! (length (mv_lines vuln) - 1)) else 0),
      codeSnippet = (if length (mv_lines vuln) > 0 then line_context (mv_lines vuln ! 0) else []),
      recommendation = getVulnerabilityRecommendationByName (mv_name vuln)\<rparr>
     # convert_vulnerabilities now (index + 1) rest"

definition math_round :: "real \<Rightarrow> int" where
  "math_round x = \<lfloor>x + 1 / 2\<rfloor>"

definition convertModelAuditResult ::
  "(nat \<Rightarrow> nat) \<Rightarrow> nat \<Rightarrow> ModelAuditResult \<Rightarrow> jsstring \<Rightarrow> AuditResult" where
  "convertModelAuditResult now date modelResult path =
     (let vulns = convert_vulnerabilities now 0 (mr_vulnerabilities modelResult)
      in \<lparr>contractName = basename path, contractPath = path, vulnerabilities = vulns,
          score = (case vulnerability_score modelResult of
                     Some v \<Rightarrow> Num (math_round ((1 - v) * 100))
                   | None \<Rightarrow> calculateSecurityScore vulns),
          timestamp = date\<rparr>)"

text \<open>
  \<open>NeuroSolidityAuditor.auditContract\<close> (auditor lines 329-400). \<open>fs\<close> maps a path to
  the text of the file there. With a model integration the model's answer is converted and
  returned; \<open>ModelIntegration.auditContract\<close> never throws, and neither does the
  conversion of a value of the declared interface, so the inner \<open>catch\<close> that leads on
  to the built-in analyzer has no branch here. Without one, the file is read and scanned.
\<close>

definition auditContract ::
  "NeuroSolidityAuditor \<Rightarrow> (jsstring \<rightharpoonup> jsstring) \<Rightarrow> ModelAuditResult model_outcome
     \<Rightarrow> (nat \<Rightarrow> nat) \<Rightarrow> nat \<Rightarrow> jsstring \<Rightarrow> js_error + AuditResult" where
  "auditContract a fs outcome now date path =
     (if \<not> aud_initialized a then Inl (Error msg_auditor_not_initialized)
      else case modelIntegration a of
        Some mi \<Rightarrow>
          Inr (convertModelAuditResult now date (ModelIntegration_auditContract outcome) path)
      | None \<Rightarrow>
          (case fs path of
             None \<Rightarrow> Inl (ENOENT path)
           | Some contractCode \<Rightarrow> Inr (builtin_audit a now date path contractCode)))"

section \<open>Patch generator\<close>

text \<open>
  What the call of the model process for a patch comes to: writing the temporary files
  or \<open>execAsync\<close> throws, with the text the error prints as, or the process ends with
  an output.
\<close>

datatype patch_outcome = PatchError jsstring | Stdout jsstring

text \<open>
  \<open>ModelIntegration.generatePatch\<close> (auditor lines 99-126): the output of the process,
  or a comment with the error when anything in the call fails.
\<close>

definition ModelIntegration_generatePatch :: "patch_outcome \<Rightarrow> jsstring" where
  "ModelIntegration_generatePatch outcome =
     (case outcome of
        Stdout stdout \<Rightarrow> stdout
      | PatchError e \<Rightarrow> patch_error_prefix @ e)"

text \<open>
  The built-in patch generator of \<open>generatePatch\<close> (auditor lines 598-636), a switch on
  the name of the vulnerability. \<open>lines[lineStart - 1]\<close> is \<open>undefined\<close> outside the
  array, and \<open>replace\<close> on it throws.
\<close>

definition reentrancy_patch_template :: jsstring where
  "reentrancy_patch_template =
     js ''// DEP Security Patch: Added reentrancy protection'' @ [10]
     @ js ''    require(!_mutex, '' @ [34] @ js ''Reentrancy guard'' @ [34] @ js '');''
     @ [10] @ js ''    _mutex = true;'' @ [10] @ js ''    $1;'' @ [10]
     @ js ''    _mutex = false;''"

definition overflow_patch_template :: jsstring where
  "overflow_patch_template =
     js ''// DEP Security Patch: Added SafeMath'' @ [10]
     @ js ''    using SafeMath for uint256;'' @ [10]
     @ js ''    // Replace with: value = value.add(amount);''"

definition manual_review_prefix :: jsstring where
  "manual_review_prefix =
     js ''// DEP Security Patch: Please review this vulnerability manually'' @ [10]
     @ js ''// ''"

definition rx_reentrancy_call :: rx where
  "rx_reentrancy_call =
     cat [lit (js ''.''), Star Space, lit (js ''call''), Star Space, lit (js ''{''), Star Dot,
          lit (js ''value''), Star Space, lit (js '':''), Star Dot, lit (js ''}'')]"

definition rx_increment :: rx where
  "rx_increment =
     Alt (lit (js ''++''))
       (Alt (lit (js ''+='')) (cat [lit (js ''=''), Star Space, lit (js ''+'')]))"

definition line_at :: "jsstring list \<Rightarrow> int \<Rightarrow> jsstring option" where
  "line_at lns k = (if 0 \<le> k \<and> k < int (length lns) then Some (lns ! nat k) else None)"

definition builtin_patch :: "Vulnerability \<Rightarrow> jsstring \<Rightarrow> js_error + jsstring" where
  "builtin_patch vulnerability contractCode =
     (let lns = split_on 10 contractCode in
      if vuln_name vulnerability = js ''Reentrancy Vulnerability'' then
        (case line_at lns (lineStart vulnerability - 1) of
           None \<Rightarrow> Inl TypeError
         | Some l \<Rightarrow> Inr (replace_rx True rx_reentrancy_call l reentrancy_patch_template))
      else if vuln_name vulnerability = js ''Integer Overflow'' then
        (case line_at lns (lineStart vulnerability - 1) of
           None \<Rightarrow> Inl TypeError
         | Some l \<Rightarrow> Inr (replace_rx True rx_increment l overflow_patch_template))
      else Inr (manual_review_prefix @ recommendation vulnerability))"

text \<open>
  The inner \<open>try\<close> of \<open>NeuroSolidityAuditor.generatePatch\<close> (auditor lines 572-596):
  with a model integration the contract is read and the model's patch returned; \<open>None\<close>
  when there is no integration, or when the read throws and the inner \<open>catch\<close> leads on
  to the built-in generator.
\<close>

definition model_patch ::
  "NeuroSolidityAuditor \<Rightarrow> (jsstring \<rightharpoonup> jsstring) \<Rightarrow> patch_outcome \<Rightarrow> jsstring
     \<Rightarrow> jsstring option" where
  "model_patch a fs outcome path =
     (case modelIntegration a of
        Some mi \<Rightarrow>
          (case fs path of
             Some contractCode \<Rightarrow> Some (ModelIntegration_generatePatch outcome)
           | None \<Rightarrow> None)
      | None \<Rightarrow> None)"

text \<open>
  \<open>NeuroSolidityAuditor.generatePatch\<close> (auditor lines 563-641): the patch of the model
  if there is one, else the built-in generator on the contract read again; the outer
  \<open>catch\<close> throws on what the read or the generator throws.
\<close>

definition generatePatch ::
  "NeuroSolidityAuditor \<Rightarrow> (jsstring \<rightharpoonup> jsstring) \<Rightarrow> patch_outcome
     \<Rightarrow> Vulnerability \<Rightarrow> jsstring \<Rightarrow> js_error + jsstring" where
  "generatePatch a fs outcome vulnerability path =
     (if \<not> aud_initialized a then Inl (Error msg_auditor_not_initialized)
      else case model_patch a fs outcome path of
        Some patch \<Rightarrow> Inr patch
      | None \<Rightarrow>
          (case fs path of
             None \<Rightarrow> Inl (ENOENT path)
           | Some contractCode \<Rightarrow> builtin_patch vulnerability contractCode))"

section \<open>EthicalMirrorEngine: data\<close>

text \<open>
  \<open>interface CodeTransformation\<close> and \<open>interface TransformationResult\<close> (engine lines
  807-824), with the prefix \<open>ct_\<close> on the fields of the first, \<open>tr_\<close> on
  \<open>timestamp\<close>, and the issue of \<open>analyzeEthics\<close> with its result. The two maps of the
  engine are lists of entries in insertion order, which is the order of iteration.
\<close>

datatype transformation_type = Ethical | Security | Optimization

record CodeTransformation =
  ct_original :: jsstring
  ct_transformed :: jsstring
  ct_type :: transformation_type
  ct_confidence :: int
  ct_description :: jsstring

record TransformationResult =
  originalCode :: jsstring
  transformedCode :: jsstring
  transformations :: "CodeTransformation list"
  tr_timestamp :: nat
  executionTime :: int




record EthicalMirrorEngine =
  eme_initialized :: bool
  transformationPatterns :: "(jsstring \<times> jsstring) list"
  securityPatterns :: "(jsstring \<times> jsstring) list"

text \<open>\<open>Map.prototype.set\<close>: a new key goes to the end, a known key keeps its place.\<close>

fun map_set :: "'k \<Rightarrow> 'v \<Rightarrow> ('k \<times> 'v) list \<Rightarrow> ('k \<times> 'v) list" where
  "map_set k v [] = [(k, v)]"
| "map_set k v ((k', v') # m) = (if k' = k then (k, v) # m else (k', v') # map_set k v m)"

section \<open>EthicalMirrorEngine: constructor and initialize\<close>

text \<open>The Cyrillic literals of the engine, as code units.\<close>

definition term_kriptoosushitel :: jsstring where
  "term_kriptoosushitel =
     [1082, 1088, 1080, 1087, 1090, 1086, 1086, 1089, 1091, 1096, 1080]
     @ [1090, 1077, 1083, 1100]"

definition repl_kriptoosushitel :: jsstring where
  "repl_kriptoosushitel =
     [1072, 1085, 1090, 1080] @ js ''-''
     @ [1076, 1088, 1072, 1081, 1085, 1077, 1088, 1086, 1074, 1099, 1081] @ js '' ''
     @ [1097, 1080, 1090]"

definition term_vzlom :: jsstring where
  "term_vzlom =
     [1074, 1079, 1083, 1086, 1084]"

definition repl_vzlom :: jsstring where
  "repl_vzlom =
     [1079, 1072, 1097, 1080, 1090, 1072]"

definition term_obhod :: jsstring where
  "term_obhod =
     [1086, 1073, 1093, 1086, 1076]"

definition repl_obhod :: jsstring where
  "repl_obhod =
     [1087, 1088, 1086, 1074, 1077, 1088, 1082, 1072]"

definition msg_engine_not_initialized :: jsstring where
  "msg_engine_not_initialized =
     js ''EthicalMirrorEngine '' @ [1085, 1077] @ js '' ''
     @ [1080, 1085, 1080, 1094, 1080, 1072, 1083, 1080, 1079, 1080, 1088]
     @ [1086, 1074, 1072, 1085]"

text \<open>
  \<open>initTransformationPatterns\<close>, run by the constructor (engine lines 837-864), and
  \<open>initialize\<close> (lines 869-891).
\<close>

definition initTransformationPatterns :: "EthicalMirrorEngine \<Rightarrow> EthicalMirrorEngine" where
  "initTransformationPatterns eng =
     eng\<lparr>transformationPatterns :=
           (map_set (js ''fraud'') (js ''authenticate'')
            \<circ> map_set (js ''scam'') (js ''verify'')
            \<circ> map_set (js ''vulnerability'') (js ''security'')
            \<circ> map_set (js ''attack'') (js ''defend'')
            \<circ> map_set (js ''exploit'') (js ''validate'')
            \<circ> map_set (js ''hack'') (js ''secure'')
            \<circ> map_set (js ''steal'') (js ''audit'')
            \<circ> map_set (js ''drain'') (js ''protect'')) (transformationPatterns eng),
         securityPatterns :=
           (map_set (js ''assert'') (js ''require'')
            \<circ> map_set (js ''call.value'') (js ''safeTransfer'')
            \<circ> map_set (js ''suicide'') (js ''secureDestruct'')
            \<circ> map_set (js ''selfdestruct'') (js ''secureDestruct'')
            \<circ> map_set (js ''tx.origin'') (js ''msg.sender'')) (securityPatterns eng)\<rparr>"

definition new_EthicalMirrorEngine :: EthicalMirrorEngine where
  "new_EthicalMirrorEngine =
     initTransformationPatterns
       \<lparr>eme_initialized = False, transformationPatterns = [], securityPatterns = []\<rparr>"

definition engine_initialize :: "EthicalMirrorEngine \<Rightarrow> EthicalMirrorEngine" where
  "engine_initialize eng =
     (if eme_initialized eng then eng
      else eng\<lparr>transformationPatterns :=
                   (map_set term_obhod repl_obhod
                    \<circ> map_set term_vzlom repl_vzlom
                    \<circ> map_set term_kriptoosushitel repl_kriptoosushitel)
                     (transformationPatterns eng),
                eme_initialized := True\<rparr>)"

section \<open>EthicalMirrorEngine: ethicalMirror\<close>

text \<open>
  \<open>new RegExp(source)\<close> for the keys of the two maps. A key of the maps as the
  constructor and \<open>initialize\<close> fill them is made of letters and the full stop; the full
  stop is the pattern for any character but a line terminator, a letter is itself. Other
  syntax characters of regular expressions do not occur in the keys and are not modelled.
  \<open>word_pattern original\<close> is \<open>new RegExp(`\\b${original}\\b`, 'gi')\<close>.
\<close>

fun pattern_of_source :: "jsstring \<Rightarrow> rx" where
  "pattern_of_source [] = Eps"
| "pattern_of_source [c] = (if c = 46 then Dot else Lit c)"
| "pattern_of_source (c # cs) = Cat (if c = 46 then Dot else Lit c) (pattern_of_source cs)"

definition word_pattern :: "jsstring \<Rightarrow> rx" where
  "word_pattern original = Cat WordB (Cat (pattern_of_source original) WordB)"

text \<open>The templates of the annotations and of the descriptions (engine lines 925, 934, 954, 963).\<close>

definition ethical_annotation :: "jsstring \<Rightarrow> jsstring \<Rightarrow> jsstring" where
  "ethical_annotation m replacement =
     js ''/* Ethical transformation: '' @ m @ js '' -> '' @ replacement @ js '' */ ''
       @ replacement"

definition security_annotation :: "jsstring \<Rightarrow> jsstring \<Rightarrow> jsstring" where
  "security_annotation m replacement =
     js ''/* Security transformation: '' @ m @ js '' -> '' @ replacement @ js '' */ ''
       @ replacement"

definition ethical_description :: "jsstring \<Rightarrow> jsstring \<Rightarrow> jsstring" where
  "ethical_description m replacement =
     ([1047, 1072, 1084, 1077, 1085, 1072] @ js '' ''
         @ [1087, 1086, 1090, 1077, 1085, 1094, 1080, 1072, 1083, 1100, 1085] @ [1086]
         @ js '' '' @ [1085, 1077, 1101, 1090, 1080, 1095, 1085, 1086, 1075, 1086]
         @ js '' '' @ [1090, 1077, 1088, 1084, 1080, 1085, 1072] @ js '' '' @ [34])
       @ m
       @ ([34] @ js '' '' @ [1085, 1072] @ js '' ''
         @ [1101, 1090, 1080, 1095, 1085, 1099, 1081] @ js '' ''
         @ [1072, 1085, 1072, 1083, 1086, 1075] @ js '' '' @ [34])
       @ replacement
       @ [34]"

definition security_description :: "jsstring \<Rightarrow> jsstring \<Rightarrow> jsstring" where
  "security_description m replacement =
     ([1047, 1072, 1084, 1077, 1085, 1072] @ js '' ''
         @ [1087, 1086, 1090, 1077, 1085, 1094, 1080, 1072, 1083, 1100, 1085] @ [1086]
         @ js '' ''
         @ [1085, 1077, 1073, 1077, 1079, 1086, 1087, 1072, 1089, 1085, 1086]
         @ [1075, 1086] @ js '' '' @ [1087, 1072, 1090, 1090, 1077, 1088, 1085, 1072]
         @ js '' '' @ [34])
       @ m
       @ ([34] @ js '' '' @ [1085, 1072] @ js '' ''
         @ [1073, 1077, 1079, 1086, 1087, 1072, 1089, 1085, 1099, 1081] @ js '' ''
         @ [1072, 1085, 1072, 1083, 1086, 1075] @ js '' '' @ [34])
       @ replacement
       @ [34]"


text \<open>
  The body of the two \<open>matches.forEach\<close> callbacks: the first occurrence of the
  matched text in the current code is replaced by the annotation, and one record is
  appended. The state is the pair of \<open>transformedCode\<close> and \<open>transformations\<close>.
\<close>

fun ethical_forEach ::
  "jsstring \<Rightarrow> jsstring list \<Rightarrow> jsstring \<times> CodeTransformation list
     \<Rightarrow> jsstring \<times> CodeTransformation list" where
  "ethical_forEach replacement [] st = st"
| "ethical_forEach replacement (m # ms) (code, ts) =
     ethical_forEach replacement ms
       (replace_str code m (ethical_annotation m replacement),
        ts @ [\<lparr>ct_original = m, ct_transformed = replacement, ct_type = Ethical,
               ct_confidence = 90, ct_description = ethical_description m replacement\<rparr>])"

fun security_forEach ::
  "jsstring \<Rightarrow> jsstring list \<Rightarrow> jsstring \<times> CodeTransformation list
     \<Rightarrow> jsstring \<times> CodeTransformation list" where
  "security_forEach replacement [] st = st"
| "security_forEach replacement (m # ms) (code, ts) =
     security_forEach replacement ms
       (replace_str code m (security_annotation m replacement),
        ts @ [\<lparr>ct_original = m, ct_transformed = replacement, ct_type = Security,
               ct_confidence = 85, ct_description = security_description m replacement\<rparr>])"

text \<open>
  The two loops over the entries of the maps (engine lines 912-967). The matches of an entry
  are searched in the code as the entries before it have left it.
\<close>

fun ethical_loop ::
  "(jsstring \<times> jsstring) list \<Rightarrow> jsstring \<times> CodeTransformation list
     \<Rightarrow> jsstring \<times> CodeTransformation list" where
  "ethical_loop [] st = st"
| "ethical_loop ((original, replacement) # rest) (code, ts) =
     ethical_loop rest
       (ethical_forEach replacement (match_all True (word_pattern original) None code)
          (code, ts))"

fun security_loop ::
  "(jsstring \<times> jsstring) list \<Rightarrow> jsstring \<times> CodeTransformation list
     \<Rightarrow> jsstring \<times> CodeTransformation list" where
  "security_loop [] st = st"
| "security_loop ((original, replacement) # rest) (code, ts) =
     security_loop rest
       (security_forEach replacement (match_all False (pattern_of_source original) None code)
          (code, ts))"

text \<open>
  \<open>ethicalMirror\<close> (engine lines 897-985). \<open>startTime\<close> and \<open>endTime\<close> are the two
  readings of \<open>Date.now()\<close>, \<open>date\<close> is the time of \<open>new Date()\<close>.
\<close>

definition ethicalMirror ::
  "EthicalMirrorEngine \<Rightarrow> nat \<Rightarrow> nat \<Rightarrow> nat \<Rightarrow> jsstring
     \<Rightarrow> js_error + TransformationResult" where
  "ethicalMirror eng startTime endTime date code =
     (if \<not> eme_initialized eng then Inl (Error msg_engine_not_initialized)
      else
        let st = security_loop (securityPatterns eng)
                   (ethical_loop (transformationPatterns eng) (code, []))
        in Inr \<lparr>originalCode = code, transformedCode = fst st, transformations = snd st,
                tr_timestamp = date, executionTime = int endTime - int startTime\<rparr>)"

section \<open>EthicalMirrorEngine: analyzeEthics\<close>





text \<open>The exported function \<open>ethical_mirror\<close> (engine lines 1144-1146).\<close>

definition ethical_mirror :: "jsstring \<Rightarrow> jsstring" where
  "ethical_mirror code =
     replace_str (replace_str code (js ''drain'') (js ''protect'')) (js ''steal'') (js ''audit'')"

section \<open>ProofOfHumanism: data\<close>

text \<open>
  Of a \<open>web3.Transaction\<close> the program reads the list \<open>signatures\<close> (pairs whose
  \<open>signature\<close> is a buffer or \<open>null\<close>) and the text that \<open>JSON.stringify\<close> returns
  for it, which the library decides: \<open>stringified\<close>. Then \<open>interface EthicalTransaction\<close>
  and \<open>interface EthicalThreshold\<close> (humanism lines 16-46; the fields \<open>ethicalScore\<close>
  and \<open>value\<close> carry a prefix) and the state of \<open>class ProofOfHumanism\<close>; the
  connection is the endpoint and the commitment it was opened with.
\<close>

record SignaturePubkeyPair =
  publicKey :: jsstring
  signature :: "nat list option"

record Transaction =
  signatures :: "SignaturePubkeyPair list"
  stringified :: jsstring

record EthicalTransaction =
  transaction :: Transaction
  tx_ethicalScore :: int
  humanismIndex :: int
  validationResult :: bool
  validationReason :: jsstring

record EthicalThreshold =
  threshold_value :: real
  lastUpdated :: nat
  proposedBy :: jsstring
  votes :: "(jsstring \<times> bool) list"

record ProofOfHumanism =
  poh_initialized :: bool
  connection :: "(jsstring \<times> jsstring) option"
  ethicalThreshold :: EthicalThreshold
  ethicalPatterns :: "(jsstring \<times> rx) list"
  unethicalPatterns :: "(jsstring \<times> rx) list"

section \<open>ProofOfHumanism: constructor and initialize\<close>

text \<open>The Cyrillic literals of the component, as code units.\<close>

definition msg_poh_not_initialized :: jsstring where
  "msg_poh_not_initialized =
     js ''ProofOfHumanism '' @ [1085, 1077] @ js '' ''
     @ [1080, 1085, 1080, 1094, 1080, 1072, 1083, 1080, 1079, 1080, 1088]
     @ [1086, 1074, 1072, 1085]"

definition msg_threshold_range :: jsstring where
  "msg_threshold_range =
     [1055, 1086, 1088, 1086, 1075] @ js '' ''
     @ [1101, 1090, 1080, 1095, 1085, 1086, 1089, 1090, 1080] @ js '' ''
     @ [1076, 1086, 1083, 1078, 1077, 1085] @ js '' '' @ [1073, 1099, 1090, 1100]
     @ js '' '' @ [1074] @ js '' ''
     @ [1076, 1080, 1072, 1087, 1072, 1079, 1086, 1085, 1077] @ js '' 0-100''"

definition reason_valid :: jsstring where
  "reason_valid =
     [1058, 1088, 1072, 1085, 1079, 1072, 1082, 1094, 1080, 1103] @ js '' ''
     @ [1089, 1086, 1086, 1090, 1074, 1077, 1090, 1089, 1090, 1074, 1091]
     @ [1077, 1090] @ js '' '' @ [1101, 1090, 1080, 1095, 1077, 1089, 1082, 1080, 1084]
     @ js '' '' @ [1080] @ js '' ''
     @ [1082, 1088, 1080, 1087, 1090, 1086, 1075, 1088, 1072, 1092, 1080]
     @ [1095, 1077, 1089, 1082, 1080, 1084] @ js '' ''
     @ [1090, 1088, 1077, 1073, 1086, 1074, 1072, 1085, 1080, 1103, 1084]"

definition reason_prefix :: jsstring where
  "reason_prefix =
     [1058, 1088, 1072, 1085, 1079, 1072, 1082, 1094, 1080, 1103] @ js '' ''"

definition reason_unethical :: jsstring where
  "reason_unethical =
     [1085, 1077] @ js '' ''
     @ [1089, 1086, 1086, 1090, 1074, 1077, 1090, 1089, 1090, 1074, 1091]
     @ [1077, 1090] @ js '' '' @ [1101, 1090, 1080, 1095, 1077, 1089, 1082, 1080, 1084]
     @ js '' '' @ [1090, 1088, 1077, 1073, 1086, 1074, 1072, 1085, 1080, 1103, 1084]"

definition reason_crypto :: jsstring where
  "reason_crypto =
     [1082, 1088, 1080, 1087, 1090, 1086, 1075, 1088, 1072, 1092, 1080]
     @ [1095, 1077, 1089, 1082, 1080] @ js '' ''
     @ [1085, 1077, 1082, 1086, 1088, 1088, 1077, 1082, 1090, 1085, 1072]"

text \<open>
  The constructor (humanism lines 61-85), \<open>initialize\<close> and \<open>loadEthicalThreshold\<close>
  (lines 90-147). \<open>date\<close> is the time of \<open>new Date()\<close>, \<open>endpoint\<close> what
  \<open>web3.clusterApiUrl('devnet')\<close> returns. All six patterns have the flag \<open>i\<close>.
\<close>

definition alt3 :: "jsstring \<Rightarrow> jsstring \<Rightarrow> jsstring \<Rightarrow> rx" where
  "alt3 a b c = Alt (lit a) (Alt (lit b) (lit c))"

definition new_ProofOfHumanism :: "nat \<Rightarrow> ProofOfHumanism" where
  "new_ProofOfHumanism date =
     \<lparr>poh_initialized = False, connection = None,
      ethicalThreshold =
        \<lparr>threshold_value = 70, lastUpdated = date, proposedBy = js ''DEP Framework'',
         votes = []\<rparr>,
      ethicalPatterns =
        [(js ''donation'', alt3 (js ''donate'') (js ''charity'') (js ''support'')),
         (js ''community'', alt3 (js ''community'') (js ''ecosystem'') (js ''public'')),
         (js ''transparency'', alt3 (js ''transparent'') (js ''open'') (js ''visible''))],
      unethicalPatterns =
        [(js ''drain'', alt3 (js ''drain'') (js ''steal'') (js ''hack'')),
         (js ''attack'', alt3 (js ''attack'') (js ''exploit'') (js ''vulnerability'')),
         (js ''scam'', alt3 (js ''scam'') (js ''fraud'') (js ''fake''))]\<rparr>"

definition loadEthicalThreshold :: "nat \<Rightarrow> ProofOfHumanism \<Rightarrow> ProofOfHumanism" where
  "loadEthicalThreshold date poh =
     poh\<lparr>ethicalThreshold :=
           \<lparr>threshold_value = 75, lastUpdated = date, proposedBy = js ''DAO Governance'',
            votes = [(js ''validator1'', True), (js ''validator2'', True),
                     (js ''validator3'', False), (js ''validator4'', True)]\<rparr>\<rparr>"

definition poh_initialize :: "jsstring \<Rightarrow> nat \<Rightarrow> ProofOfHumanism \<Rightarrow> ProofOfHumanism" where
  "poh_initialize endpoint date poh =
     (if poh_initialized poh then poh
      else (loadEthicalThreshold date (poh\<lparr>connection := Some (endpoint, js ''confirmed'')\<rparr>))
             \<lparr>poh_initialized := True\<rparr>)"

section \<open>ProofOfHumanism: validateTransaction\<close>

text \<open>
  \<open>calculateHumanismIndex\<close> with \<open>hasLargeAmounts\<close> and \<open>involvesEthicalAddresses\<close>
  (humanism lines 194-302). The two loops carry \<open>score\<close>.
\<close>

fun ethical_patterns_loop :: "(jsstring \<times> rx) list \<Rightarrow> jsstring \<Rightarrow> int \<Rightarrow> int" where
  "ethical_patterns_loop [] txString sc = sc"
| "ethical_patterns_loop ((key, pattern) # rest) txString sc =
     ethical_patterns_loop rest txString (if test True pattern txString then sc + 10 else sc)"

fun unethical_patterns_loop :: "(jsstring \<times> rx) list \<Rightarrow> jsstring \<Rightarrow> int \<Rightarrow> int" where
  "unethical_patterns_loop [] txString sc = sc"
| "unethical_patterns_loop ((key, pattern) # rest) txString sc =
     unethical_patterns_loop rest txString (if test True pattern txString then sc - 20 else sc)"

definition largeNumberPattern :: rx where
  "largeNumberPattern = cat (replicate 10 Digit @ [Star Digit])"

definition hasLargeAmounts :: "Transaction \<Rightarrow> bool" where
  "hasLargeAmounts tx \<longleftrightarrow> test False largeNumberPattern (stringified tx)"

definition ethicalAddresses :: "jsstring list" where
  "ethicalAddresses = [js ''CharityWallet123'', js ''DonationAddress456'', js ''CommunityFund789'']"

definition involvesEthicalAddresses :: "Transaction \<Rightarrow> bool" where
  "involvesEthicalAddresses tx \<longleftrightarrow>
     list_ex (\<lambda>addr. includes_str (stringified tx) addr) ethicalAddresses"

definition calculateHumanismIndex :: "ProofOfHumanism \<Rightarrow> Transaction \<Rightarrow> int" where
  "calculateHumanismIndex poh tx =
     (let txString = stringified tx;
          s1 = ethical_patterns_loop (ethicalPatterns poh) txString 50;
          s2 = unethical_patterns_loop (unethicalPatterns poh) txString s1;
          s3 = (if hasLargeAmounts tx then s2 - 15 else s2);
          s4 = (if involvesEthicalAddresses tx then s3 + 15 else s3)
      in max 0 (min 100 s4))"

text \<open>\<open>cryptographicVerify\<close> (humanism lines 245-265).\<close>

definition cryptographicVerify :: "Transaction \<Rightarrow> bool" where
  "cryptographicVerify tx \<longleftrightarrow>
     (if length (signatures tx) = 0 then False
      else list_all (\<lambda>sig. signature sig \<noteq> None) (signatures tx))"

text \<open>\<open>validateTransaction\<close> (humanism lines 153-188).\<close>

definition validateTransaction :: "ProofOfHumanism \<Rightarrow> Transaction \<Rightarrow> js_error + EthicalTransaction" where
  "validateTransaction poh tx =
     (if \<not> poh_initialized poh then Inl (Error msg_poh_not_initialized)
      else
        let idx = calculateHumanismIndex poh tx;
            isValid = (real_of_int idx > threshold_value (ethicalThreshold poh));
            isCryptographicallyValid = cryptographicVerify tx;
            res = (isValid \<and> isCryptographicallyValid)
        in Inr \<lparr>transaction = tx, tx_ethicalScore = idx, humanismIndex = idx,
                validationResult = res,
                validationReason =
                  (if res then reason_valid
                   else reason_prefix @ (if \<not> isValid then reason_unethical else reason_crypto))\<rparr>)"

section \<open>ProofOfHumanism: the threshold\<close>

text \<open>
  \<open>proposeNewThreshold\<close>, \<open>getEthicalThreshold\<close> and \<open>updateEthicalThreshold\<close>
  (humanism lines 352-407). Each returns its result together with the component after the
  call.
\<close>

definition proposeNewThreshold ::
  "ProofOfHumanism \<Rightarrow> nat \<Rightarrow> jsstring \<Rightarrow> real
     \<Rightarrow> (js_error + EthicalThreshold) \<times> ProofOfHumanism" where
  "proposeNewThreshold poh date proposerId newThreshold =
     (if \<not> poh_initialized poh then (Inl (Error msg_poh_not_initialized), poh)
      else if newThreshold < 0 \<or> newThreshold > 100
      then (Inl (Error msg_threshold_range), poh)
      else (Inr \<lparr>threshold_value = newThreshold, lastUpdated = date,
                 proposedBy = proposerId, votes = []\<rparr>, poh))"

definition getEthicalThreshold ::
  "ProofOfHumanism \<Rightarrow> (js_error + EthicalThreshold) \<times> ProofOfHumanism" where
  "getEthicalThreshold poh =
     (if \<not> poh_initialized poh then (Inl (Error msg_poh_not_initialized), poh)
      else (Inr (ethicalThreshold poh), poh))"

definition updateEthicalThreshold ::
  "ProofOfHumanism \<Rightarrow> EthicalThreshold \<Rightarrow> (js_error + unit) \<times> ProofOfHumanism" where
  "updateEthicalThreshold poh newThreshold =
     (if \<not> poh_initialized poh then (Inl (Error msg_poh_not_initialized), poh)
      else (Inr (), poh\<lparr>ethicalThreshold := newThreshold\<rparr>))"

section \<open>Matching in the words of the specification\<close>

text \<open>
  These two predicates follow the specification, not the source; they are compared with
  the engine's patterns. A whole-word match, in the words of the glossary, is ``a pattern
  match bounded by non-word-character or string-boundary on both sides'';
  \<open>spec_whole_word t s\<close> says that the term \<open>t\<close> occurs so in \<open>s\<close>, letters compared
  without regard to case. \<open>spec_substring key s\<close> says that \<open>key\<close> occurs in \<open>s\<close> as
  it is written.
\<close>

fun spec_whole_word_from :: "jsstring \<Rightarrow> jschar option \<Rightarrow> jsstring \<Rightarrow> bool" where
  "spec_whole_word_from t p [] \<longleftrightarrow>
     t = [] \<and> (case p of None \<Rightarrow> True | Some q \<Rightarrow> \<not> isWordChar q)"
| "spec_whole_word_from t p (c # cs) \<longleftrightarrow>
     (map (canonicalize True) (take (length t) (c # cs)) = map (canonicalize True) t
      \<and> (case p of None \<Rightarrow> True | Some q \<Rightarrow> \<not> isWordChar q)
      \<and> (case drop (length t) (c # cs) of [] \<Rightarrow> True | d # _ \<Rightarrow> \<not> isWordChar d))
     \<or> spec_whole_word_from t (Some c) cs"

definition spec_whole_word :: "jsstring \<Rightarrow> jsstring \<Rightarrow> bool" where
  "spec_whole_word t s \<longleftrightarrow> spec_whole_word_from t None s"

definition spec_substring :: "jsstring \<Rightarrow> jsstring \<Rightarrow> bool" where
  "spec_substring key s \<longleftrightarrow> includes_str s key"

section \<open>The scan in the words of the specification\<close>

text \<open>
  These follow the specification of the scanner, not the source. \<open>spec_window lns i\<close>
  is ``the contiguous window of lines [max(0,i-2), min(lastIndex, i+2)] inclusive, joined
  with newlines''. \<open>spec_hits lns patterns\<close> lists the pairs of a line index and the key
  of a rule whose pattern matches that line, ``outer loop over lines, inner loop over
  rules''. \<open>spec_finding now lns n i key\<close> is the finding with index \<open>n\<close> for such a
  pair, with \<open>lineStart = lineEnd = i + 1\<close>.
\<close>

definition spec_window :: "jsstring list \<Rightarrow> nat \<Rightarrow> jsstring" where
  "spec_window lns i =
     join [10]
       (map (\<lambda>j. lns ! j) [nat (max 0 (int i - 2)) ..< Suc (min (length lns - 1) (i + 2))])"

definition spec_hits :: "jsstring list \<Rightarrow> (jsstring \<times> rx) list \<Rightarrow> (nat \<times> jsstring) list" where
  "spec_hits lns patterns =
     concat (map (\<lambda>i. map (\<lambda>(key, pattern). (i, key))
                          (filter (\<lambda>(key, pattern). test True pattern (lns ! i)) patterns))
                 [0 ..< length lns])"

definition spec_finding :: "(nat \<Rightarrow> nat) \<Rightarrow> jsstring list \<Rightarrow> nat \<Rightarrow> nat \<Rightarrow> jsstring \<Rightarrow> Vulnerability" where
  "spec_finding now lns n i key =
     \<lparr>vuln_id = vulnerability_id (now n) n,
      vuln_name = getVulnerabilityName key,
      severity = getVulnerabilitySeverity key,
      description = getVulnerabilityDescription key,
      lineStart = int i + 1,
      lineEnd = int i + 1,
      codeSnippet = spec_window lns i,
      recommendation = getVulnerabilityRecommendation key\<rparr>"

section \<open>The score in the words of the specification\<close>

text \<open>
  These follow the specification of the scorer, not the source: the weights ``critical=30,
  high=20, medium=10, low=5, info=1'', any other severity contributing 0, and the score
  100 for no findings and otherwise 100 minus the smaller of 100 and the sum of the
  weights.
\<close>

definition spec_weight :: "jsstring \<Rightarrow> int" where
  "spec_weight sev =
     (if sev = js ''critical'' then 30 else if sev = js ''high'' then 20
      else if sev = js ''medium'' then 10 else if sev = js ''low'' then 5
      else if sev = js ''info'' then 1 else 0)"

definition spec_score :: "Vulnerability list \<Rightarrow> int" where
  "spec_score F =
     (if F = [] then 100
      else 100 - min 100 (sum_list (map (\<lambda>v. spec_weight (severity v)) F)))"

section \<open>Evaluating the matcher\<close>

text \<open>
  Equations that run the matcher on a given input without building the intermediate
  lists: a pattern that starts with a character, a class, a boundary, an alternative or a
  repetition of a class is decided on the next code unit.
\<close>

lemma concat_map_concat:
  "concat (map f (concat xss)) = concat (map (\<lambda>xs. concat (map f xs)) xss)"
  by (induction xss) simp_all

lemma rxm_Cat_assoc: "rxm ic (Cat (Cat a b) r) cur = rxm ic (Cat a (Cat b r)) cur"
proof -
  have "(\<lambda>m. concat (map (rxm ic r) (rxm ic b m))) = rxm ic (Cat b r)"
    by (rule ext) simp
  then show ?thesis by (simp add: concat_map_concat comp_def)
qed

lemma rxm_Cat_Eps: "rxm ic (Cat Eps r) cur = rxm ic r cur"
  by simp

lemma rxm_Cat_Alt: "rxm ic (Cat (Alt a b) r) cur = rxm ic (Cat a r) cur @ rxm ic (Cat b r) cur"
  by simp

lemma rxm_Cat_WordB:
  "rxm ic (Cat WordB r) cur = (if wordBefore cur \<noteq> wordAfter cur then rxm ic r cur else [])"
  by simp

lemma rxm_Cat_NotAhead:
  "rxm ic (Cat (NotAhead a) r) cur = (if rxm ic a cur = [] then rxm ic r cur else [])"
  by simp

lemma rxm_Lit_Nil: "rxm ic (Lit x) (p, []) = []"
  by (simp add: step_def)

lemma rxm_Lit_Cons:
  "rxm ic (Lit x) (p, c # cs) =
     (if canonicalize ic c = canonicalize ic x then [(Some c, cs)] else [])"
  by (simp add: step_def)

lemma rxm_Cat_Lit_Nil: "rxm ic (Cat (Lit x) r) (p, []) = []"
  by (simp add: step_def)

lemma rxm_Cat_Lit_Cons:
  "rxm ic (Cat (Lit x) r) (p, c # cs) =
     (if canonicalize ic c = canonicalize ic x then rxm ic r (Some c, cs) else [])"
  by (simp add: step_def)

lemma rxm_Dot_Nil: "rxm ic Dot (p, []) = []"
  by (simp add: step_def)

lemma rxm_Dot_Cons:
  "rxm ic Dot (p, c # cs) = (if isLineTerminator c then [] else [(Some c, cs)])"
  by (simp add: step_def)

lemma rxm_Cat_Dot_Nil: "rxm ic (Cat Dot r) (p, []) = []"
  by (simp add: step_def)

lemma rxm_Cat_Dot_Cons:
  "rxm ic (Cat Dot r) (p, c # cs) = (if isLineTerminator c then [] else rxm ic r (Some c, cs))"
  by (simp add: step_def)

lemma rxm_Digit_Nil: "rxm ic Digit (p, []) = []"
  by (simp add: step_def)

lemma rxm_Digit_Cons:
  "rxm ic Digit (p, c # cs) = (if isDigit c then [(Some c, cs)] else [])"
  by (simp add: step_def)

lemma rxm_Cat_Digit_Nil: "rxm ic (Cat Digit r) (p, []) = []"
  by (simp add: step_def)

lemma rxm_Cat_Digit_Cons:
  "rxm ic (Cat Digit r) (p, c # cs) = (if isDigit c then rxm ic r (Some c, cs) else [])"
  by (simp add: step_def)

lemma rxm_Space_Nil: "rxm ic Space (p, []) = []"
  by (simp add: step_def)

lemma rxm_Space_Cons:
  "rxm ic Space (p, c # cs) = (if isWhiteSpace c then [(Some c, cs)] else [])"
  by (simp add: step_def)

lemma rxm_Cat_Space_Nil: "rxm ic (Cat Space r) (p, []) = []"
  by (simp add: step_def)

lemma rxm_Cat_Space_Cons:
  "rxm ic (Cat Space r) (p, c # cs) = (if isWhiteSpace c then rxm ic r (Some c, cs) else [])"
  by (simp add: step_def)

text \<open>A repetition of a class: one more code unit of the class, or stop here.\<close>

lemma rxm_Star_class_Nil:
  "r = Dot \<or> r = Space \<or> r = Digit \<Longrightarrow> rxm ic (Star r) (p, []) = [(p, [])]"
  by (subst rxm_Star) (auto simp: step_def)

lemma rxm_Star_Dot_Cons:
  "rxm ic (Star Dot) (p, c # cs) =
     (if isLineTerminator c then [] else rxm ic (Star Dot) (Some c, cs)) @ [(p, c # cs)]"
  by (subst rxm_Star) (simp add: step_def)

lemma rxm_Star_Space_Cons:
  "rxm ic (Star Space) (p, c # cs) =
     (if isWhiteSpace c then rxm ic (Star Space) (Some c, cs) else []) @ [(p, c # cs)]"
  by (subst rxm_Star) (simp add: step_def)

lemma rxm_Star_Digit_Cons:
  "rxm ic (Star Digit) (p, c # cs) =
     (if isDigit c then rxm ic (Star Digit) (Some c, cs) else []) @ [(p, c # cs)]"
  by (subst rxm_Star) (simp add: step_def)

lemma rxm_Cat_Star_Dot_Nil: "rxm ic (Cat (Star Dot) r) (p, []) = rxm ic r (p, [])"
  by (simp add: rxm_Star_class_Nil)

lemma rxm_Cat_Star_Dot_Cons:
  "rxm ic (Cat (Star Dot) r) (p, c # cs) =
     (if isLineTerminator c then [] else rxm ic (Cat (Star Dot) r) (Some c, cs))
       @ rxm ic r (p, c # cs)"
  by (simp add: rxm_Star_Dot_Cons)

lemma rxm_Cat_Star_Space_Nil: "rxm ic (Cat (Star Space) r) (p, []) = rxm ic r (p, [])"
  by (simp add: rxm_Star_class_Nil)

lemma rxm_Cat_Star_Space_Cons:
  "rxm ic (Cat (Star Space) r) (p, c # cs) =
     (if isWhiteSpace c then rxm ic (Cat (Star Space) r) (Some c, cs) else [])
       @ rxm ic r (p, c # cs)"
  by (simp add: rxm_Star_Space_Cons)

lemma rxm_Cat_Star_Digit_Nil: "rxm ic (Cat (Star Digit) r) (p, []) = rxm ic r (p, [])"
  by (simp add: rxm_Star_class_Nil)

lemma rxm_Cat_Star_Digit_Cons:
  "rxm ic (Cat (Star Digit) r) (p, c # cs) =
     (if isDigit c then rxm ic (Cat (Star Digit) r) (Some c, cs) else [])
       @ rxm ic r (p, c # cs)"
  by (simp add: rxm_Star_Digit_Cons)

lemmas rxm_eval =
  rxm_Cat_assoc rxm_Cat_Eps rxm_Cat_Alt rxm_Cat_WordB rxm_Cat_NotAhead
  rxm_Lit_Nil rxm_Lit_Cons rxm_Cat_Lit_Nil rxm_Cat_Lit_Cons
  rxm_Dot_Nil rxm_Dot_Cons rxm_Cat_Dot_Nil rxm_Cat_Dot_Cons
  rxm_Digit_Nil rxm_Digit_Cons rxm_Cat_Digit_Nil rxm_Cat_Digit_Cons
  rxm_Space_Nil rxm_Space_Cons rxm_Cat_Space_Nil rxm_Cat_Space_Cons
  rxm_Star_class_Nil rxm_Star_Dot_Cons rxm_Star_Space_Cons rxm_Star_Digit_Cons
  rxm_Cat_Star_Dot_Nil rxm_Cat_Star_Dot_Cons rxm_Cat_Star_Space_Nil rxm_Cat_Star_Space_Cons
  rxm_Cat_Star_Digit_Nil rxm_Cat_Star_Digit_Cons

lemmas char_eval =
  canonicalize_def isWordChar_def isDigit_def isWhiteSpace_def isLineTerminator_def
  wordBefore_def wordAfter_def

text \<open>The first occurrence of a text is decided on its first code unit.\<close>

lemma indexOf_Cons_Cons:
  "indexOf (c # cs) (x # xs) =
     (if c = x \<and> take (length xs) cs = xs then Some 0 else map_option Suc (indexOf cs (x # xs)))"
  by simp

text \<open>The patterns of the auditor.\<close>

lemmas test_eval =
  test_def rx_reentrancy_def rx_integerOverflow_def rx_uncheckedReturn_def rx_txOrigin_def
  rx_unsecuredSelfDestruct_def rxm_eval char_eval step_def

text \<open>
  Where a pattern has no match, the search is a conjunction over the start positions, and
  the equations are applied on their own, with the arithmetic of numerals.
\<close>

lemma exec_from_None_Cons:
  "(exec_from ic r p (c # cs) = None) =
     (rxm ic r (p, c # cs) = [] \<and> exec_from ic r (Some c) cs = None)"
  by (simp split: list.splits)

lemma exec_from_None_Nil: "(exec_from ic r p [] = None) = (rxm ic r (p, []) = [])"
  by (simp split: list.splits)

lemma match_all_Nil_iff: "(match_all ic r p s = []) = (exec_from ic r p s = None)"
  by (subst match_all.simps) (simp split: option.splits)

lemmas nomatch_eval =
  match_all_Nil_iff exec_from_None_Cons exec_from_None_Nil
  rxm_eval rxm.simps(1-6,8,10) step_def char_eval
  list.case option.case prod.case fst_conv snd_conv if_True if_False simp_thms
  rel_simps arith_simps append_Nil append_Cons append_Nil2 list.distinct list.inject
  rx.distinct rx.inject diff_nat_numeral nat_numeral
  word_pattern_def pattern_of_source.simps

section \<open>Scorer: properties\<close>

text \<open>
  The severities that reach the scorer are of the declared type: the built-in scan takes
  them from \<open>getVulnerabilitySeverity\<close>, the conversion of the model's answer from
  \<open>mapSeverity\<close>.
\<close>

lemma getVulnerabilitySeverity_known: "known_severity (getVulnerabilitySeverity key)"
  by (simp add: known_severity_def getVulnerabilitySeverity_def lookup_or_def)

lemma mapSeverity_known: "known_severity (mapSeverity sev)"
  by (simp add: known_severity_def mapSeverity_def)

lemma known_severity_cases:
  "known_severity sev \<longleftrightarrow>
     sev = js ''critical'' \<or> sev = js ''high'' \<or> sev = js ''medium'' \<or> sev = js ''low''
     \<or> sev = js ''info''"
  by (simp add: known_severity_def)

lemma weight_of_known: "known_severity sev \<Longrightarrow> weight_of sev = Some (spec_weight sev)"
  unfolding known_severity_cases
  by (auto simp add: weight_of_def severityWeights_def spec_weight_def)

text \<open>
  Outside the declared type: a severity that is neither one of the five nor a name of
  \<open>Object.prototype\<close> weighs 0, and a name of \<open>Object.prototype\<close> makes the score
  \<open>NaN\<close>.
\<close>

lemma weight_of_other:
  "\<not> known_severity sev \<Longrightarrow> sev \<notin> set object_prototype_names \<Longrightarrow> weight_of sev = Some 0"
  unfolding known_severity_cases
  by (simp add: weight_of_def severityWeights_def)

lemma weight_of_inherited: "sev \<in> set object_prototype_names \<Longrightarrow> weight_of sev = None"
  by (auto simp add: weight_of_def severityWeights_def object_prototype_names_def)

lemma calculateSecurityScore_inherited:
  "calculateSecurityScore [v\<lparr>severity := js ''constructor''\<rparr>] = NaN"
  by (simp add: calculateSecurityScore_def weight_of_def severityWeights_def
        object_prototype_names_def)

lemma spec_weight_nonneg: "0 \<le> spec_weight sev"
  by (simp add: spec_weight_def)

lemma spec_weight_known: "known_severity sev \<Longrightarrow> 1 \<le> spec_weight sev"
  unfolding known_severity_cases by (auto simp add: spec_weight_def)

lemma spec_sum_nonneg: "0 \<le> sum_list (map (\<lambda>v. spec_weight (severity v)) vs)"
  by (induction vs) (simp_all add: spec_weight_nonneg)

lemma spec_sum_pos:
  assumes "\<forall>v \<in> set vs. known_severity (severity v)" and "vs \<noteq> []"
  shows "1 \<le> sum_list (map (\<lambda>v. spec_weight (severity v)) vs)"
proof (cases vs)
  case Nil
  with assms(2) show ?thesis by simp
next
  case (Cons v ws)
  with assms(1) have "1 \<le> spec_weight (severity v)" by (simp add: spec_weight_known)
  moreover have "0 \<le> sum_list (map (\<lambda>v. spec_weight (severity v)) ws)"
    by (rule spec_sum_nonneg)
  ultimately show ?thesis using Cons by simp
qed

lemma penalty_loop_typed:
  "\<forall>v \<in> set vs. known_severity (severity v) \<Longrightarrow>
     penalty_loop (Some acc) vs = Some (acc + sum_list (map (\<lambda>v. spec_weight (severity v)) vs))"
  by (induction vs arbitrary: acc) (simp_all add: weight_of_known)

lemma score_typed:
  "\<forall>v \<in> set F. known_severity (severity v) \<Longrightarrow> calculateSecurityScore F = Num (spec_score F)"
  by (simp add: calculateSecurityScore_def spec_score_def penalty_loop_typed min.commute)

lemma spec_score_range: "0 \<le> spec_score F \<and> spec_score F \<le> 100"
  using spec_sum_nonneg [of F] by (simp add: spec_score_def)

lemma spec_score_append: "spec_score (F @ [f]) \<le> spec_score F"
  using spec_sum_nonneg [of F] spec_weight_nonneg [of "severity f"]
  by (simp add: spec_score_def min_def)

lemma spec_score_100_iff:
  assumes "\<forall>v \<in> set F. known_severity (severity v)"
  shows "spec_score F = 100 \<longleftrightarrow> F = []"
proof (cases "F = []")
  case True
  then show ?thesis by (simp add: spec_score_def)
next
  case False
  with assms have "1 \<le> sum_list (map (\<lambda>v. spec_weight (severity v)) F)"
    by (rule spec_sum_pos)
  with False show ?thesis by (simp add: spec_score_def min_def)
qed

text \<open>
  Claim C1. For every list \<open>F\<close> of findings, each with one of the five severities of the
  declared type, the score is the one of the specification: 100 for the empty list and
  otherwise 100 minus the smaller of 100 and the sum of the severity weights (critical 30,
  high 20, medium 10, low 5, info 1). It is a number in [0,100], it is 100 exactly when
  \<open>F\<close> is empty, and appending a finding \<open>f\<close> never increases it.
\<close>

theorem calculateSecurityScore_spec:
  assumes "\<forall>v \<in> set F. known_severity (severity v)" and "known_severity (severity f)"
  shows "calculateSecurityScore F = Num (spec_score F)
     \<and> (\<exists>s. calculateSecurityScore F = Num s \<and> 0 \<le> s \<and> s \<le> 100)
     \<and> (calculateSecurityScore F = Num 100 \<longleftrightarrow> F = [])
     \<and> (\<exists>s s'. calculateSecurityScore F = Num s \<and> calculateSecurityScore (F @ [f]) = Num s'
           \<and> s' \<le> s)"
proof (intro conjI)
  from assms have typed: "\<forall>v \<in> set (F @ [f]). known_severity (severity v)" by simp
  show f: "calculateSecurityScore F = Num (spec_score F)"
    using assms(1) by (rule score_typed)
  from typed have g: "calculateSecurityScore (F @ [f]) = Num (spec_score (F @ [f]))"
    by (rule score_typed)
  show "\<exists>s. calculateSecurityScore F = Num s \<and> 0 \<le> s \<and> s \<le> 100"
    using f spec_score_range [of F] by simp
  show "calculateSecurityScore F = Num 100 \<longleftrightarrow> F = []"
    using spec_score_100_iff [OF assms(1)] by (simp add: f)
  show "\<exists>s s'. calculateSecurityScore F = Num s \<and> calculateSecurityScore (F @ [f]) = Num s'
           \<and> s' \<le> s"
    using f g spec_score_append [of F f] by simp
qed

theorem calculateSecurityScore_spec_witness:
  "known_severity (js ''high'') \<and> known_severity (js ''critical'')
   \<and> calculateSecurityScore
        [\<lparr>vuln_id = js ''VULN-0-0'', vuln_name = js ''Integer Overflow'',
          severity = js ''high'', description = [], lineStart = 1, lineEnd = 1,
          codeSnippet = js ''i++;'', recommendation = []\<rparr>] = Num 80
   \<and> calculateSecurityScore
        ([\<lparr>vuln_id = js ''VULN-0-0'', vuln_name = js ''Integer Overflow'',
           severity = js ''high'', description = [], lineStart = 1, lineEnd = 1,
           codeSnippet = js ''i++;'', recommendation = []\<rparr>]
         @ [\<lparr>vuln_id = js ''VULN-0-1'', vuln_name = js ''Unsecured Self-Destruct'',
             severity = js ''critical'', description = [], lineStart = 2, lineEnd = 2,
             codeSnippet = js ''selfdestruct(o);'', recommendation = []\<rparr>]) = Num 50"
  using calculateSecurityScore_spec
    [of "[\<lparr>vuln_id = js ''VULN-0-0'', vuln_name = js ''Integer Overflow'',
          severity = js ''high'', description = [], lineStart = 1, lineEnd = 1,
          codeSnippet = js ''i++;'', recommendation = []\<rparr>]"
        "\<lparr>vuln_id = js ''VULN-0-1'', vuln_name = js ''Unsecured Self-Destruct'',
             severity = js ''critical'', description = [], lineStart = 2, lineEnd = 2,
             codeSnippet = js ''selfdestruct(o);'', recommendation = []\<rparr>"]
  by (simp add: known_severity_def spec_score_def spec_weight_def
        calculateSecurityScore_def weight_of_def severityWeights_def)

section \<open>Scanner: one finding for each matching pair of line and rule\<close>

lemma slice_nth: "b \<le> length xs \<Longrightarrow> slice a b xs = map (\<lambda>j. xs ! j) [a ..< b]"
proof -
  assume b: "b \<le> length xs"
  have "take (b - a) (drop a xs) = map (\<lambda>j. xs ! j) [a ..< b]"
  proof (rule nth_equalityI)
    show "length (take (b - a) (drop a xs)) = length (map (\<lambda>j. xs ! j) [a ..< b])"
      using b by simp
  next
    fix k
    assume "k < length (take (b - a) (drop a xs))"
    then have k: "k < b - a" by simp
    with b show "take (b - a) (drop a xs) ! k = map (\<lambda>j. xs ! j) [a ..< b] ! k"
      by simp
  qed
  then show ?thesis by (simp add: slice_def)
qed

lemma snippet_window: "i < length lns \<Longrightarrow> snippet lns i = spec_window lns i"
proof -
  assume i: "i < length lns"
  then have "min (length lns) (i + 3) = Suc (min (length lns - 1) (i + 2))"
    by arith
  then show ?thesis
    by (simp add: snippet_def spec_window_def slice_nth)
qed

lemma scan_patterns_spec:
  "i < length lns \<Longrightarrow>
   scan_patterns now lns i patterns vulns =
     vulns @ map (\<lambda>(n, key). spec_finding now lns n i key)
               (enumerate (length vulns)
                  (map fst (filter (\<lambda>(key, pattern). test True pattern (lns ! i)) patterns)))"
proof (induction patterns arbitrary: vulns)
  case Nil
  show ?case by simp
next
  case (Cons kp patterns)
  obtain key pattern where kp: "kp = (key, pattern)" by (cases kp)
  show ?case
  proof (cases "test True pattern (lns ! i)")
    case True
    with Cons kp show ?thesis
      by (simp add: spec_finding_def snippet_window)
  next
    case False
    with Cons kp show ?thesis by simp
  qed
qed

lemma scan_lines_spec:
  "scan_lines now lns i patterns vulns =
     vulns @ map (\<lambda>(n, (j, key)). spec_finding now lns n j key)
               (enumerate (length vulns)
                  (concat (map (\<lambda>j. map (\<lambda>(key, pattern). (j, key))
                       (filter (\<lambda>(key, pattern). test True pattern (lns ! j)) patterns))
                     [i ..< length lns])))"
proof (induction now lns i patterns vulns rule: scan_lines.induct)
  case (1 now lns i patterns vulns)
  show ?case
  proof (cases "i < length lns")
    case False
    then show ?thesis by (subst scan_lines.simps) simp
  next
    case True
    let ?hit = "\<lambda>j. filter (\<lambda>(key, pattern). test True pattern (lns ! j)) patterns"
    have up: "[i ..< length lns] = i # [i + 1 ..< length lns]"
      using True by (simp add: upt_conv_Cons)
    have m: "map (\<lambda>(n, key). spec_finding now lns n i key)
                (enumerate (length vulns) (map fst (?hit i)))
           = map (\<lambda>(n, (j, key)). spec_finding now lns n j key)
                (enumerate (length vulns) (map (\<lambda>(key, pattern). (i, key)) (?hit i)))"
      by (simp add: enumerate_eq_zip case_prod_beta zip_map2)
    have "scan_lines now lns i patterns vulns =
            scan_lines now lns (i + 1) patterns (scan_patterns now lns i patterns vulns)"
      using True by (subst scan_lines.simps) simp
    also have "\<dots> = scan_patterns now lns i patterns vulns
        @ map (\<lambda>(n, (j, key)). spec_finding now lns n j key)
            (enumerate (length (scan_patterns now lns i patterns vulns))
               (concat (map (\<lambda>j. map (\<lambda>(key, pattern). (j, key)) (?hit j))
                  [i + 1 ..< length lns])))"
      using "1.IH" [OF True] .
    finally show ?thesis
      using True
      by (simp add: scan_patterns_spec m up enumerate_append_eq)
  qed
qed

text \<open>Counting the findings of one line and of one rule.\<close>

lemma length_filter_concat_map:
  "length (filter P (concat (map f idxs))) = sum_list (map (\<lambda>j. length (filter P (f j))) idxs)"
  by (induction idxs) simp_all

lemma sum_list_single:
  "sum_list (map (\<lambda>j. if j = i0 then c j else 0) [0 ..< n]) = (if i0 < n then c i0 else (0::nat))"
  by (induction n) auto

lemma sum_list_indicator:
  "sum_list (map (\<lambda>j. if Q j then 1 else 0) idxs) = length (filter Q idxs)"
  by (induction idxs) simp_all

lemma length_filter_enumerate:
  "length (filter (\<lambda>(n, x). Q x) (enumerate m xs)) = length (filter Q xs)"
  by (induction xs arbitrary: m) simp_all

lemma hits_of_line:
  "length (filter (\<lambda>(j, key). j = i0) (spec_hits lns patterns)) =
     (if i0 < length lns
      then length (filter (\<lambda>(key, pattern). test True pattern (lns ! i0)) patterns) else 0)"
proof -
  have "\<And>j. length (filter (\<lambda>(j', key). j' = i0)
            (map (\<lambda>(key, pattern). (j, key))
               (filter (\<lambda>(key, pattern). test True pattern (lns ! j)) patterns))) =
          (if j = i0
           then length (filter (\<lambda>(key, pattern). test True pattern (lns ! j)) patterns) else 0)"
    by (simp add: filter_map comp_def split_def)
  then show ?thesis
    unfolding spec_hits_def length_filter_concat_map
    by (simp add: sum_list_single)
qed

lemma filter_distinct_key:
  "distinct (map fst patterns) \<Longrightarrow> (key, pattern) \<in> set patterns \<Longrightarrow>
     filter (\<lambda>(k, p). k = key \<and> Q p) patterns = (if Q pattern then [(key, pattern)] else [])"
proof (induction patterns)
  case Nil
  then show ?case by simp
next
  case (Cons kp patterns)
  obtain k p where kp: "kp = (k, p)" by (cases kp)
  show ?case
  proof (cases "k = key")
    case True
    with Cons.prems kp have p: "p = pattern"
      by (auto simp: image_iff)
    from Cons.prems kp True have "\<forall>(k', p') \<in> set patterns. k' \<noteq> key"
      by (auto simp: image_iff)
    then have "filter (\<lambda>(k, p). k = key \<and> Q p) patterns = []"
      by (auto simp: filter_empty_conv)
    with kp True p show ?thesis by simp
  next
    case False
    with Cons kp show ?thesis by auto
  qed
qed

lemma hits_of_rule:
  assumes "distinct (map fst patterns)" and "(key, pattern) \<in> set patterns"
  shows "length (filter (\<lambda>(j, k). k = key) (spec_hits lns patterns)) =
     length (filter (\<lambda>j. test True pattern (lns ! j)) [0 ..< length lns])"
proof -
  have "\<And>j. length (filter (\<lambda>(j', k). k = key)
            (map (\<lambda>(key, pattern). (j, key))
               (filter (\<lambda>(key, pattern). test True pattern (lns ! j)) patterns))) =
          (if test True pattern (lns ! j) then 1 else 0)"
  proof -
    fix j
    have "length (filter (\<lambda>(j', k). k = key)
            (map (\<lambda>(key, pattern). (j, key))
               (filter (\<lambda>(key, pattern). test True pattern (lns ! j)) patterns))) =
          length (filter (\<lambda>(k, p). k = key \<and> test True p (lns ! j)) patterns)"
      by (simp add: filter_map comp_def split_def conj_commute)
    also have "\<dots> = (if test True pattern (lns ! j) then 1 else 0)"
      using filter_distinct_key [OF assms, of "\<lambda>p. test True p (lns ! j)"] by simp
    finally show "length (filter (\<lambda>(j', k). k = key)
            (map (\<lambda>(key, pattern). (j, key))
               (filter (\<lambda>(key, pattern). test True pattern (lns ! j)) patterns))) =
          (if test True pattern (lns ! j) then 1 else 0)" .
  qed
  then show ?thesis
    unfolding spec_hits_def length_filter_concat_map
    by (simp add: sum_list_indicator)
qed

lemma builtin_audit_findings:
  "vulnerabilities (builtin_audit a now date path contractCode) =
     map (\<lambda>(n, (i, key)). spec_finding now (split_on 10 contractCode) n i key)
       (enumerate 0 (spec_hits (split_on 10 contractCode) (vulnerabilityPatterns a)))"
  by (simp add: builtin_audit_def Let_def scan_lines_spec spec_hits_def)

lemma findings_of_line:
  "i < length lns \<Longrightarrow>
   length (filter (\<lambda>v. lineStart v = int i + 1)
     (map (\<lambda>(n, (j, key)). spec_finding now lns n j key) (enumerate 0 (spec_hits lns patterns))))
   = length (filter (\<lambda>(key, pattern). test True pattern (lns ! i)) patterns)"
proof -
  assume i: "i < length lns"
  have "length (filter (\<lambda>v. lineStart v = int i + 1)
     (map (\<lambda>(n, (j, key)). spec_finding now lns n j key) (enumerate 0 (spec_hits lns patterns))))
    = length (filter (\<lambda>(n, x). (\<lambda>(j, key). j = i) x) (enumerate 0 (spec_hits lns patterns)))"
    by (simp add: filter_map comp_def split_def spec_finding_def)
  also have "\<dots> = length (filter (\<lambda>(j, key). j = i) (spec_hits lns patterns))"
    by (rule length_filter_enumerate)
  finally show ?thesis using i by (simp add: hits_of_line)
qed

lemma hits_keys:
  assumes "(j, k) \<in> set (spec_hits lns patterns)"
  shows "k \<in> fst ` set patterns"
proof -
  from assms obtain i kp where kp: "kp \<in> set patterns"
    and jk: "(j, k) = (case kp of (key, pattern) \<Rightarrow> (i, key))"
    by (auto simp: spec_hits_def)
  obtain key pattern where "kp = (key, pattern)" by (cases kp)
  with kp jk have "(k, pattern) \<in> set patterns" by simp
  then show ?thesis by force
qed

lemma findings_of_rule:
  assumes d: "distinct (map (getVulnerabilityName \<circ> fst) patterns)"
    and kp: "(key, pattern) \<in> set patterns"
  shows "length (filter (\<lambda>v. vuln_name v = getVulnerabilityName key)
     (map (\<lambda>(n, (j, k)). spec_finding now lns n j k) (enumerate 0 (spec_hits lns patterns))))
   = length (filter (\<lambda>j. test True pattern (lns ! j)) [0 ..< length lns])"
proof -
  from d have "distinct (map getVulnerabilityName (map fst patterns))"
    by (simp only: map_map)
  then have "distinct (map fst patterns)
      \<and> inj_on getVulnerabilityName (set (map fst patterns))"
    by (rule iffD1 [OF distinct_map])
  then have dk: "distinct (map fst patterns)"
    and inj: "inj_on getVulnerabilityName (set (map fst patterns))"
    by (rule conjunct1, rule conjunct2)
  have key: "key \<in> set (map fst patterns)" using kp by force
  have same: "filter (\<lambda>(j, k). getVulnerabilityName k = getVulnerabilityName key)
                (spec_hits lns patterns)
            = filter (\<lambda>(j, k). k = key) (spec_hits lns patterns)"
  proof (rule filter_cong [OF refl])
    fix x
    assume x: "x \<in> set (spec_hits lns patterns)"
    obtain j k where jk: "x = (j, k)" by (cases x)
    with x have "k \<in> set (map fst patterns)" using hits_keys [of j k lns patterns] by simp
    with inj key have "getVulnerabilityName k = getVulnerabilityName key \<longleftrightarrow> k = key"
      by (auto dest: inj_onD)
    with jk show "(case x of (j, k) \<Rightarrow> getVulnerabilityName k = getVulnerabilityName key)
        = (case x of (j, k) \<Rightarrow> k = key)"
      by simp
  qed
  have "length (filter (\<lambda>v. vuln_name v = getVulnerabilityName key)
     (map (\<lambda>(n, (j, k)). spec_finding now lns n j k) (enumerate 0 (spec_hits lns patterns))))
    = length (filter (\<lambda>(n, x). (\<lambda>(j, k). getVulnerabilityName k = getVulnerabilityName key) x)
        (enumerate 0 (spec_hits lns patterns)))"
    by (simp add: filter_map comp_def split_def spec_finding_def)
  also have "\<dots> = length (filter (\<lambda>(j, k). getVulnerabilityName k = getVulnerabilityName key)
        (spec_hits lns patterns))"
    by (rule length_filter_enumerate)
  also have "\<dots> = length (filter (\<lambda>(j, k). k = key) (spec_hits lns patterns))"
    by (simp only: same)
  finally show ?thesis by (simp add: hits_of_rule [OF dk kp])
qed

text \<open>
  Claim C6. The findings of the built-in scan are, in scan order (lines outside, rules
  inside), one finding for each pair of a line index \<open>i\<close> and a rule whose pattern matches
  line \<open>i\<close>: its \<open>lineStart\<close> and \<open>lineEnd\<close> are \<open>i + 1\<close> and its \<open>codeSnippet\<close>
  is the lines \<open>max(0, i - 2)\<close> to \<open>min(lastIndex, i + 2)\<close> joined with newlines. So a
  line that \<open>k\<close> rules match has \<open>k\<close> findings, and a rule that matches \<open>m\<close> lines has
  \<open>m\<close> findings (told apart by their names, which differ from rule to rule); nothing is
  merged.
\<close>

theorem builtin_scan_findings:
  "vulnerabilities (builtin_audit a now date path contractCode) =
     map (\<lambda>(n, (i, key)). spec_finding now (split_on 10 contractCode) n i key)
       (enumerate 0 (spec_hits (split_on 10 contractCode) (vulnerabilityPatterns a)))
   \<and> (i < length (split_on 10 contractCode) \<longrightarrow>
        length (filter (\<lambda>v. lineStart v = int i + 1 \<and> lineEnd v = int i + 1
                           \<and> codeSnippet v = spec_window (split_on 10 contractCode) i)
                  (vulnerabilities (builtin_audit a now date path contractCode)))
        = length (filter (\<lambda>(key, pattern). test True pattern (split_on 10 contractCode ! i))
                    (vulnerabilityPatterns a)))
   \<and> (distinct (map (getVulnerabilityName \<circ> fst) (vulnerabilityPatterns a))
        \<and> (key, pattern) \<in> set (vulnerabilityPatterns a) \<longrightarrow>
        length (filter (\<lambda>v. vuln_name v = getVulnerabilityName key)
                  (vulnerabilities (builtin_audit a now date path contractCode)))
        = length (filter (\<lambda>j. test True pattern (split_on 10 contractCode ! j))
                    [0 ..< length (split_on 10 contractCode)]))"
proof (intro conjI impI)
  let ?lns = "split_on 10 contractCode"
  let ?found = "map (\<lambda>(n, (i, key)). spec_finding now ?lns n i key)
       (enumerate 0 (spec_hits ?lns (vulnerabilityPatterns a)))"
  show "vulnerabilities (builtin_audit a now date path contractCode) = ?found"
    by (rule builtin_audit_findings)
  {
    assume i: "i < length ?lns"
    have "filter (\<lambda>v. lineStart v = int i + 1 \<and> lineEnd v = int i + 1
                           \<and> codeSnippet v = spec_window ?lns i) ?found
        = filter (\<lambda>v. lineStart v = int i + 1) ?found"
      by (rule filter_cong [OF refl]) (auto simp: spec_finding_def)
    then show "length (filter (\<lambda>v. lineStart v = int i + 1 \<and> lineEnd v = int i + 1
                           \<and> codeSnippet v = spec_window ?lns i)
                  (vulnerabilities (builtin_audit a now date path contractCode)))
        = length (filter (\<lambda>(key, pattern). test True pattern (?lns ! i))
                    (vulnerabilityPatterns a))"
      using findings_of_line [OF i, of now "vulnerabilityPatterns a"]
      by (simp only: builtin_audit_findings)
  }
  {
    assume h: "distinct (map (getVulnerabilityName \<circ> fst) (vulnerabilityPatterns a))
        \<and> (key, pattern) \<in> set (vulnerabilityPatterns a)"
    then show "length (filter (\<lambda>v. vuln_name v = getVulnerabilityName key)
                  (vulnerabilities (builtin_audit a now date path contractCode)))
        = length (filter (\<lambda>j. test True pattern (?lns ! j)) [0 ..< length ?lns])"
      using findings_of_rule [of "vulnerabilityPatterns a" key pattern now ?lns]
      by (simp only: builtin_audit_findings)
  }
qed


text \<open>A contract of four lines: three of them match a rule, the third matches two.\<close>

lemma sample_lines:
  "split_on 10 (js ''x++;'' @ [10] @ js ''selfdestruct(o);'' @ [10] @ js ''tx.origin; y += 1;'' @ [10] @ js ''}'') =
     [js ''x++;'', js ''selfdestruct(o);'', js ''tx.origin; y += 1;'', js ''}'']"
  by simp

lemma sample_line0:
  "\<not> test True rx_reentrancy (js ''x++;'')"
  "test True rx_integerOverflow (js ''x++;'')"
  "\<not> test True rx_uncheckedReturn (js ''x++;'')"
  "\<not> test True rx_txOrigin (js ''x++;'')"
  "\<not> test True rx_unsecuredSelfDestruct (js ''x++;'')"
  by (simp_all add: test_eval del: rxm.simps(7))

lemma sample_line1:
  "\<not> test True rx_reentrancy (js ''selfdestruct(o);'')"
  "\<not> test True rx_integerOverflow (js ''selfdestruct(o);'')"
  "\<not> test True rx_uncheckedReturn (js ''selfdestruct(o);'')"
  "\<not> test True rx_txOrigin (js ''selfdestruct(o);'')"
  "test True rx_unsecuredSelfDestruct (js ''selfdestruct(o);'')"
  by (simp_all add: test_eval del: rxm.simps(7))

lemma sample_line2:
  "\<not> test True rx_reentrancy (js ''tx.origin; y += 1;'')"
  "test True rx_integerOverflow (js ''tx.origin; y += 1;'')"
  "\<not> test True rx_uncheckedReturn (js ''tx.origin; y += 1;'')"
  "test True rx_txOrigin (js ''tx.origin; y += 1;'')"
  "\<not> test True rx_unsecuredSelfDestruct (js ''tx.origin; y += 1;'')"
  by (simp_all add: test_eval del: rxm.simps(7))

lemma sample_line3:
  "\<not> test True rx_reentrancy (js ''}'')"
  "\<not> test True rx_integerOverflow (js ''}'')"
  "\<not> test True rx_uncheckedReturn (js ''}'')"
  "\<not> test True rx_txOrigin (js ''}'')"
  "\<not> test True rx_unsecuredSelfDestruct (js ''}'')"
  by (simp_all add: test_eval del: rxm.simps(7))

lemma sample_hits:
  "spec_hits [js ''x++;'', js ''selfdestruct(o);'', js ''tx.origin; y += 1;'', js ''}'']
     (vulnerabilityPatterns new_NeuroSolidityAuditor) =
   [(0, js ''integerOverflow''), (1, js ''unsecuredSelfDestruct''), (2, js ''integerOverflow''), (2, js ''txOrigin'')]"
  by (simp add: spec_hits_def new_NeuroSolidityAuditor_def upt_conv_Cons sample_line0 [simplified] sample_line1 [simplified] sample_line2 [simplified] sample_line3 [simplified])

theorem builtin_scan_findings_witness:
  "2 < length (split_on 10 (js ''x++;'' @ [10] @ js ''selfdestruct(o);'' @ [10] @ js ''tx.origin; y += 1;'' @ [10] @ js ''}''))
   \<and> distinct (map (getVulnerabilityName \<circ> fst) (vulnerabilityPatterns new_NeuroSolidityAuditor))
   \<and> (js ''integerOverflow'', rx_integerOverflow)
        \<in> set (vulnerabilityPatterns new_NeuroSolidityAuditor)
   \<and> map (\<lambda>v. (vuln_name v, lineStart v, lineEnd v, codeSnippet v))
        (vulnerabilities
           (builtin_audit new_NeuroSolidityAuditor (\<lambda>k. 1700000000000 + k) 0 (js ''a.sol'')
              (js ''x++;'' @ [10] @ js ''selfdestruct(o);'' @ [10] @ js ''tx.origin; y += 1;'' @ [10] @ js ''}''))) =
     [(js ''Integer Overflow'', 1, 1,
       js ''x++;'' @ [10] @ js ''selfdestruct(o);'' @ [10] @ js ''tx.origin; y += 1;''),
      (js ''Unsecured Self-Destruct'', 2, 2,
       js ''x++;'' @ [10] @ js ''selfdestruct(o);'' @ [10] @ js ''tx.origin; y += 1;'' @ [10] @ js ''}''),
      (js ''Integer Overflow'', 3, 3,
       js ''x++;'' @ [10] @ js ''selfdestruct(o);'' @ [10] @ js ''tx.origin; y += 1;'' @ [10] @ js ''}''),
      (js ''tx.origin Authentication'', 3, 3,
       js ''x++;'' @ [10] @ js ''selfdestruct(o);'' @ [10] @ js ''tx.origin; y += 1;'' @ [10] @ js ''}'')]"
proof (intro conjI)
  show "2 < length (split_on 10 (js ''x++;'' @ [10] @ js ''selfdestruct(o);'' @ [10] @ js ''tx.origin; y += 1;'' @ [10] @ js ''}''))"
    by (simp only: sample_lines) simp
  show "distinct (map (getVulnerabilityName \<circ> fst)
          (vulnerabilityPatterns new_NeuroSolidityAuditor))"
    by (simp add: new_NeuroSolidityAuditor_def getVulnerabilityName_def lookup_or_def)
  show "(js ''integerOverflow'', rx_integerOverflow)
        \<in> set (vulnerabilityPatterns new_NeuroSolidityAuditor)"
    by (simp add: new_NeuroSolidityAuditor_def)
  have "vulnerabilities
           (builtin_audit new_NeuroSolidityAuditor (\<lambda>k. 1700000000000 + k) 0 (js ''a.sol'')
              (js ''x++;'' @ [10] @ js ''selfdestruct(o);'' @ [10] @ js ''tx.origin; y += 1;'' @ [10] @ js ''}'')) =
     map (\<lambda>(n, (i, key)). spec_finding (\<lambda>k. 1700000000000 + k)
            (split_on 10 (js ''x++;'' @ [10] @ js ''selfdestruct(o);'' @ [10] @ js ''tx.origin; y += 1;'' @ [10] @ js ''}'')) n i key)
       (enumerate 0 (spec_hits (split_on 10 (js ''x++;'' @ [10] @ js ''selfdestruct(o);'' @ [10] @ js ''tx.origin; y += 1;'' @ [10] @ js ''}''))
          (vulnerabilityPatterns new_NeuroSolidityAuditor)))"
    using builtin_scan_findings
      [of new_NeuroSolidityAuditor "\<lambda>k. 1700000000000 + k" 0 "js ''a.sol''"
          "(js ''x++;'' @ [10] @ js ''selfdestruct(o);'' @ [10] @ js ''tx.origin; y += 1;'' @ [10] @ js ''}'')"]
    by (rule conjunct1)
  then show "map (\<lambda>v. (vuln_name v, lineStart v, lineEnd v, codeSnippet v))
        (vulnerabilities
           (builtin_audit new_NeuroSolidityAuditor (\<lambda>k. 1700000000000 + k) 0 (js ''a.sol'')
              (js ''x++;'' @ [10] @ js ''selfdestruct(o);'' @ [10] @ js ''tx.origin; y += 1;'' @ [10] @ js ''}''))) =
     [(js ''Integer Overflow'', 1, 1,
       js ''x++;'' @ [10] @ js ''selfdestruct(o);'' @ [10] @ js ''tx.origin; y += 1;''),
      (js ''Unsecured Self-Destruct'', 2, 2,
       js ''x++;'' @ [10] @ js ''selfdestruct(o);'' @ [10] @ js ''tx.origin; y += 1;'' @ [10] @ js ''}''),
      (js ''Integer Overflow'', 3, 3,
       js ''x++;'' @ [10] @ js ''selfdestruct(o);'' @ [10] @ js ''tx.origin; y += 1;'' @ [10] @ js ''}''),
      (js ''tx.origin Authentication'', 3, 3,
       js ''x++;'' @ [10] @ js ''selfdestruct(o);'' @ [10] @ js ''tx.origin; y += 1;'' @ [10] @ js ''}'')]"
    by (simp only: sample_lines sample_hits)
       (simp add: spec_finding_def spec_window_def getVulnerabilityName_def lookup_or_def
          upt_conv_Cons)
qed

section \<open>auditContract when the model process fails\<close>

lemma initialized_auditor:
  "aud_initialized (auditor_initialize env new_NeuroSolidityAuditor)"
  "modelIntegration (auditor_initialize env new_NeuroSolidityAuditor) =
     Some \<lparr>pythonPath = js ''python'', modelBridgePath = bridge_path env\<rparr>"
  "vulnerabilityPatterns (auditor_initialize env new_NeuroSolidityAuditor) =
     vulnerabilityPatterns new_NeuroSolidityAuditor"
  by (simp_all add: auditor_initialize_def new_NeuroSolidityAuditor_def)

lemma selfdestruct_line:
  "\<not> test True rx_reentrancy (js ''selfdestruct(payable(owner));'')"
  "\<not> test True rx_integerOverflow (js ''selfdestruct(payable(owner));'')"
  "\<not> test True rx_uncheckedReturn (js ''selfdestruct(payable(owner));'')"
  "\<not> test True rx_txOrigin (js ''selfdestruct(payable(owner));'')"
  "test True rx_unsecuredSelfDestruct (js ''selfdestruct(payable(owner));'')"
  by (simp_all add: test_eval del: rxm.simps(7))

lemma selfdestruct_hits:
  "spec_hits (split_on 10 (js ''selfdestruct(payable(owner));''))
     (vulnerabilityPatterns (auditor_initialize env new_NeuroSolidityAuditor)) =
   [(0, js ''unsecuredSelfDestruct'')]"
  unfolding initialized_auditor(3)
  by (simp add: spec_hits_def new_NeuroSolidityAuditor_def selfdestruct_line [simplified])

lemma selfdestruct_builtin:
  "map vuln_name (vulnerabilities
     (builtin_audit (auditor_initialize env new_NeuroSolidityAuditor) now date path
        (js ''selfdestruct(payable(owner));''))) = [js ''Unsecured Self-Destruct'']"
  "map severity (vulnerabilities
     (builtin_audit (auditor_initialize env new_NeuroSolidityAuditor) now date path
        (js ''selfdestruct(payable(owner));''))) = [js ''critical'']"
  by (simp_all only: builtin_audit_findings selfdestruct_hits)
     (simp_all add: spec_finding_def getVulnerabilityName_def getVulnerabilitySeverity_def
        lookup_or_def)

lemma selfdestruct_score:
  "score (builtin_audit (auditor_initialize env new_NeuroSolidityAuditor) now date path
        (js ''selfdestruct(payable(owner));'')) = Num 70"
proof -
  let ?b = "builtin_audit (auditor_initialize env new_NeuroSolidityAuditor) now date path
        (js ''selfdestruct(payable(owner));'')"
  have s: "score ?b = calculateSecurityScore (vulnerabilities ?b)"
    by (simp add: builtin_audit_def Let_def)
  from selfdestruct_builtin(2) [of env now date path]
  obtain v where v: "vulnerabilities ?b = [v]" and c: "severity v = js ''critical''"
    by (auto simp add: map_eq_Cons_conv)
  from c have "calculateSecurityScore [v] = Num 70"
    by (simp add: calculateSecurityScore_def weight_of_def severityWeights_def)
  with s v show ?thesis by simp
qed

text \<open>
  Claim C2 on the code. When the call of the model process fails, or its output is not
  JSON, the initialized auditor returns the conversion of the fixed answer of
  \<open>ModelIntegration.auditContract\<close>: no findings and the score 0, whatever the contract
  is. The built-in scan is not run; on the contract \<open>selfdestruct(payable(owner));\<close>
  it would report one critical finding and the score 70.
\<close>

theorem auditContract_model_failure:
  "auditContract (auditor_initialize env new_NeuroSolidityAuditor) fs (ProcessError e) now date path =
     Inr \<lparr>contractName = basename path, contractPath = path, vulnerabilities = [],
          score = Num 0, timestamp = date\<rparr>
   \<and> auditContract (auditor_initialize env new_NeuroSolidityAuditor) fs (MalformedOutput e) now
        date path =
     Inr \<lparr>contractName = basename path, contractPath = path, vulnerabilities = [],
          score = Num 0, timestamp = date\<rparr>
   \<and> map vuln_name (vulnerabilities
        (builtin_audit (auditor_initialize env new_NeuroSolidityAuditor) now date path
           (js ''selfdestruct(payable(owner));''))) = [js ''Unsecured Self-Destruct'']
   \<and> score (builtin_audit (auditor_initialize env new_NeuroSolidityAuditor) now date path
        (js ''selfdestruct(payable(owner));'')) = Num 70"
proof (intro conjI)
  show "auditContract (auditor_initialize env new_NeuroSolidityAuditor) fs (ProcessError e) now
      date path =
     Inr \<lparr>contractName = basename path, contractPath = path, vulnerabilities = [],
          score = Num 0, timestamp = date\<rparr>"
    by (simp add: auditContract_def initialized_auditor ModelIntegration_auditContract_def
          convertModelAuditResult_def math_round_def)
  show "auditContract (auditor_initialize env new_NeuroSolidityAuditor) fs (MalformedOutput e) now
      date path =
     Inr \<lparr>contractName = basename path, contractPath = path, vulnerabilities = [],
          score = Num 0, timestamp = date\<rparr>"
    by (simp add: auditContract_def initialized_auditor ModelIntegration_auditContract_def
          convertModelAuditResult_def math_round_def)
  show "map vuln_name (vulnerabilities
        (builtin_audit (auditor_initialize env new_NeuroSolidityAuditor) now date path
           (js ''selfdestruct(payable(owner));''))) = [js ''Unsecured Self-Destruct'']"
    by (rule selfdestruct_builtin)
  show "score (builtin_audit (auditor_initialize env new_NeuroSolidityAuditor) now date path
        (js ''selfdestruct(payable(owner));'')) = Num 70"
    by (rule selfdestruct_score)
qed

section \<open>Patch generator\<close>

lemma indexOf_append: "indexOf (xs @ pat @ ys) pat \<noteq> None"
proof (induction xs)
  case Nil
  show ?case
  proof (cases "pat @ ys")
    case Nil
    then show ?thesis by simp
  next
    case (Cons c cs)
    have "take (length pat) (pat @ ys) = pat" by simp
    with Cons show ?thesis by simp
  qed
next
  case (Cons x xs)
  then show ?case by simp
qed

lemma includes_suffix: "includes_str (p @ r) r"
  using indexOf_append [of p r "[]"] by (simp add: includes_str_def)

lemma generatePatch_initialized:
  "generatePatch (auditor_initialize env new_NeuroSolidityAuditor) (fs(path \<mapsto> contractCode))
     outcome v path = Inr (ModelIntegration_generatePatch outcome)"
  by (simp add: generatePatch_def model_patch_def initialized_auditor)

text \<open>
  Claim C8 on the code. On an initialized auditor and a readable contract, when the call
  of the model process fails with the error \<open>e\<close>, \<open>generatePatch\<close> returns the comment
  with that error, whatever the vulnerability is: \<open>ModelIntegration.generatePatch\<close>
  catches the failure itself, so the \<open>catch\<close> of \<open>generatePatch\<close> that leads on to the
  built-in generator is never entered. For a process that cannot be started the comment
  does not contain the recommendation stored for \<open>Unchecked Return Value\<close>, a name the
  switch does not handle; the built-in generator would return the manual-review comment
  that contains it.
\<close>

theorem generatePatch_model_failure:
  "generatePatch (auditor_initialize env new_NeuroSolidityAuditor) (fs(path \<mapsto> contractCode))
     (PatchError e) v path = Inr (patch_error_prefix @ e)
   \<and> \<not> includes_str (patch_error_prefix @ js ''Error: spawn python ENOENT'') rec_uncheckedReturn
   \<and> getVulnerabilityName (js ''uncheckedReturn'') = js ''Unchecked Return Value''
   \<and> getVulnerabilityRecommendation (js ''uncheckedReturn'') = rec_uncheckedReturn
   \<and> builtin_patch
        (v\<lparr>vuln_name := js ''Unchecked Return Value'', recommendation := rec_uncheckedReturn\<rparr>)
        contractCode = Inr (manual_review_prefix @ rec_uncheckedReturn)
   \<and> includes_str (manual_review_prefix @ rec_uncheckedReturn) rec_uncheckedReturn"
proof (intro conjI)
  show "generatePatch (auditor_initialize env new_NeuroSolidityAuditor)
     (fs(path \<mapsto> contractCode)) (PatchError e) v path = Inr (patch_error_prefix @ e)"
    by (simp add: generatePatch_initialized ModelIntegration_generatePatch_def)
  show "\<not> includes_str (patch_error_prefix @ js ''Error: spawn python ENOENT'') rec_uncheckedReturn"
    by (simp add: includes_str_def patch_error_prefix_def rec_uncheckedReturn_def
          indexOf_Cons_Cons del: indexOf.simps(2))
  show "getVulnerabilityName (js ''uncheckedReturn'') = js ''Unchecked Return Value''"
    by (simp add: getVulnerabilityName_def lookup_or_def)
  show "getVulnerabilityRecommendation (js ''uncheckedReturn'') = rec_uncheckedReturn"
    by (simp add: getVulnerabilityRecommendation_def lookup_or_def rec_uncheckedReturn_def)
  show "builtin_patch
        (v\<lparr>vuln_name := js ''Unchecked Return Value'', recommendation := rec_uncheckedReturn\<rparr>)
        contractCode = Inr (manual_review_prefix @ rec_uncheckedReturn)"
    by (simp add: builtin_patch_def Let_def)
  show "includes_str (manual_review_prefix @ rec_uncheckedReturn) rec_uncheckedReturn"
    by (rule includes_suffix)
qed

section \<open>The initialized engine\<close>

lemma initialized_engine_tables:
  "transformationPatterns (engine_initialize new_EthicalMirrorEngine) =
     [(js ''drain'', js ''protect''), (js ''steal'', js ''audit''), (js ''hack'', js ''secure''),
      (js ''exploit'', js ''validate''), (js ''attack'', js ''defend''),
      (js ''vulnerability'', js ''security''), (js ''scam'', js ''verify''),
      (js ''fraud'', js ''authenticate''), (term_kriptoosushitel, repl_kriptoosushitel),
      (term_vzlom, repl_vzlom), (term_obhod, repl_obhod)]"
  "securityPatterns (engine_initialize new_EthicalMirrorEngine) =
     [(js ''tx.origin'', js ''msg.sender''), (js ''selfdestruct'', js ''secureDestruct''),
      (js ''suicide'', js ''secureDestruct''), (js ''call.value'', js ''safeTransfer''),
      (js ''assert'', js ''require'')]"
  "eme_initialized (engine_initialize new_EthicalMirrorEngine)"
  by (simp_all add: engine_initialize_def new_EthicalMirrorEngine_def
        initTransformationPatterns_def term_kriptoosushitel_def term_vzlom_def term_obhod_def)

lemmas match_eval =
  match_all.simps word_pattern_def rxm_eval char_eval matched_text_def step_def
  term_kriptoosushitel_def term_vzlom_def term_obhod_def

section \<open>analyzeEthics on the example of the proposal\<close>

text \<open>The keys of the engine as code units.\<close>

lemma units_drain:
  "js ''drain'' =
     [100, 114, 97, 105, 110]"
  by simp

lemma units_steal:
  "js ''steal'' =
     [115, 116, 101, 97, 108]"
  by simp

lemma units_hack:
  "js ''hack'' =
     [104, 97, 99, 107]"
  by simp

lemma units_exploit:
  "js ''exploit'' =
     [101, 120, 112, 108, 111, 105, 116]"
  by simp

lemma units_attack:
  "js ''attack'' =
     [97, 116, 116, 97, 99, 107]"
  by simp

lemma units_vulnerability:
  "js ''vulnerability'' =
     [118, 117, 108, 110, 101, 114, 97, 98, 105, 108, 105, 116, 121]"
  by simp

lemma units_scam:
  "js ''scam'' =
     [115, 99, 97, 109]"
  by simp

lemma units_fraud:
  "js ''fraud'' =
     [102, 114, 97, 117, 100]"
  by simp

lemma units_tx_origin:
  "js ''tx.origin'' =
     [116, 120, 46, 111, 114, 105, 103, 105, 110]"
  by simp

lemma units_selfdestruct:
  "js ''selfdestruct'' =
     [115, 101, 108, 102, 100, 101, 115, 116, 114, 117, 99, 116]"
  by simp

lemma units_suicide:
  "js ''suicide'' =
     [115, 117, 105, 99, 105, 100, 101]"
  by simp

lemma units_call_value:
  "js ''call.value'' =
     [99, 97, 108, 108, 46, 118, 97, 108, 117, 101]"
  by simp

lemma units_assert:
  "js ''assert'' =
     [97, 115, 115, 101, 114, 116]"
  by simp

lemma units_example:
  "js ''function drainWallet() { steal(funds); }'' =
     [102, 117, 110, 99, 116, 105, 111, 110, 32, 100, 114, 97, 105, 110, 87, 97, 108,
      108, 101, 116, 40, 41, 32, 123, 32, 115, 116, 101, 97, 108, 40, 102, 117, 110,
      100, 115, 41, 59, 32, 125]"
  by simp

lemma example_drain:
  "match_all True (word_pattern (js ''drain'')) None
     (js ''function drainWallet() { steal(funds); }'') = []"
  unfolding units_example units_drain word_pattern_def pattern_of_source.simps
  by (simp only: nomatch_eval cong: if_weak_cong)

lemma example_steal:
  "match_all True (word_pattern (js ''steal'')) None
     (js ''function drainWallet() { steal(funds); }'') = [js ''steal'']"
  by (simp add: match_eval del: rxm.simps(7))

lemma example_hack:
  "match_all True (word_pattern (js ''hack'')) None
     (js ''function drainWallet() { steal(funds); }'') = []"
  unfolding units_example units_hack word_pattern_def pattern_of_source.simps
  by (simp only: nomatch_eval cong: if_weak_cong)

lemma example_exploit:
  "match_all True (word_pattern (js ''exploit'')) None
     (js ''function drainWallet() { steal(funds); }'') = []"
  unfolding units_example units_exploit word_pattern_def pattern_of_source.simps
  by (simp only: nomatch_eval cong: if_weak_cong)

lemma example_attack:
  "match_all True (word_pattern (js ''attack'')) None
     (js ''function drainWallet() { steal(funds); }'') = []"
  unfolding units_example units_attack word_pattern_def pattern_of_source.simps
  by (simp only: nomatch_eval cong: if_weak_cong)

lemma example_vulnerability:
  "match_all True (word_pattern (js ''vulnerability'')) None
     (js ''function drainWallet() { steal(funds); }'') = []"
  unfolding units_example units_vulnerability word_pattern_def pattern_of_source.simps
  by (simp only: nomatch_eval cong: if_weak_cong)

lemma example_scam:
  "match_all True (word_pattern (js ''scam'')) None
     (js ''function drainWallet() { steal(funds); }'') = []"
  unfolding units_example units_scam word_pattern_def pattern_of_source.simps
  by (simp only: nomatch_eval cong: if_weak_cong)

lemma example_fraud:
  "match_all True (word_pattern (js ''fraud'')) None
     (js ''function drainWallet() { steal(funds); }'') = []"
  unfolding units_example units_fraud word_pattern_def pattern_of_source.simps
  by (simp only: nomatch_eval cong: if_weak_cong)

lemma example_kriptoosushitel:
  "match_all True (word_pattern (term_kriptoosushitel)) None
     (js ''function drainWallet() { steal(funds); }'') = []"
  unfolding units_example term_kriptoosushitel_def word_pattern_def pattern_of_source.simps
  by (simp only: nomatch_eval cong: if_weak_cong)

lemma example_vzlom:
  "match_all True (word_pattern (term_vzlom)) None
     (js ''function drainWallet() { steal(funds); }'') = []"
  unfolding units_example term_vzlom_def word_pattern_def pattern_of_source.simps
  by (simp only: nomatch_eval cong: if_weak_cong)

lemma example_obhod:
  "match_all True (word_pattern (term_obhod)) None
     (js ''function drainWallet() { steal(funds); }'') = []"
  unfolding units_example term_obhod_def word_pattern_def pattern_of_source.simps
  by (simp only: nomatch_eval cong: if_weak_cong)

lemmas example_matches =
  example_drain example_steal example_hack example_exploit
  example_attack example_vulnerability example_scam example_fraud
  example_kriptoosushitel example_vzlom example_obhod




section \<open>ethicalMirror on the example of the proposal\<close>

lemma example_replace_steal:
  "replace_str (js ''function drainWallet() { steal(funds); }'') (js ''steal'')
     (ethical_annotation (js ''steal'') (js ''audit'')) =
   js ''function drainWallet() { /* Ethical transformation: steal -> audit */ audit(funds); }''"
  by (simp add: replace_str_def ethical_annotation_def subst_ref_def)

lemma units_annotated:
  "js ''function drainWallet() { /* Ethical transformation: steal -> audit */ audit(funds); }'' =
     [102, 117, 110, 99, 116, 105, 111, 110, 32, 100, 114, 97, 105, 110, 87, 97, 108,
      108, 101, 116, 40, 41, 32, 123, 32, 47, 42, 32, 69, 116, 104, 105, 99, 97, 108,
      32, 116, 114, 97, 110, 115, 102, 111, 114, 109, 97, 116, 105, 111, 110, 58, 32,
      115, 116, 101, 97, 108, 32, 45, 62, 32, 97, 117, 100, 105, 116, 32, 42, 47, 32,
      97, 117, 100, 105, 116, 40, 102, 117, 110, 100, 115, 41, 59, 32, 125]"
  by simp

lemma annotated_hack:
  "match_all True (word_pattern (js ''hack'')) None
     (js ''function drainWallet() { /* Ethical transformation: steal -> audit */ audit(funds); }'') = []"
  unfolding units_annotated units_hack word_pattern_def pattern_of_source.simps
  by (simp only: nomatch_eval cong: if_weak_cong)

lemma annotated_exploit:
  "match_all True (word_pattern (js ''exploit'')) None
     (js ''function drainWallet() { /* Ethical transformation: steal -> audit */ audit(funds); }'') = []"
  unfolding units_annotated units_exploit word_pattern_def pattern_of_source.simps
  by (simp only: nomatch_eval cong: if_weak_cong)

lemma annotated_attack:
  "match_all True (word_pattern (js ''attack'')) None
     (js ''function drainWallet() { /* Ethical transformation: steal -> audit */ audit(funds); }'') = []"
  unfolding units_annotated units_attack word_pattern_def pattern_of_source.simps
  by (simp only: nomatch_eval cong: if_weak_cong)

lemma annotated_vulnerability:
  "match_all True (word_pattern (js ''vulnerability'')) None
     (js ''function drainWallet() { /* Ethical transformation: steal -> audit */ audit(funds); }'') = []"
  unfolding units_annotated units_vulnerability word_pattern_def pattern_of_source.simps
  by (simp only: nomatch_eval cong: if_weak_cong)

lemma annotated_scam:
  "match_all True (word_pattern (js ''scam'')) None
     (js ''function drainWallet() { /* Ethical transformation: steal -> audit */ audit(funds); }'') = []"
  unfolding units_annotated units_scam word_pattern_def pattern_of_source.simps
  by (simp only: nomatch_eval cong: if_weak_cong)

lemma annotated_fraud:
  "match_all True (word_pattern (js ''fraud'')) None
     (js ''function drainWallet() { /* Ethical transformation: steal -> audit */ audit(funds); }'') = []"
  unfolding units_annotated units_fraud word_pattern_def pattern_of_source.simps
  by (simp only: nomatch_eval cong: if_weak_cong)

lemma annotated_kriptoosushitel:
  "match_all True (word_pattern (term_kriptoosushitel)) None
     (js ''function drainWallet() { /* Ethical transformation: steal -> audit */ audit(funds); }'') = []"
  unfolding units_annotated term_kriptoosushitel_def word_pattern_def pattern_of_source.simps
  by (simp only: nomatch_eval cong: if_weak_cong)

lemma annotated_vzlom:
  "match_all True (word_pattern (term_vzlom)) None
     (js ''function drainWallet() { /* Ethical transformation: steal -> audit */ audit(funds); }'') = []"
  unfolding units_annotated term_vzlom_def word_pattern_def pattern_of_source.simps
  by (simp only: nomatch_eval cong: if_weak_cong)

lemma annotated_obhod:
  "match_all True (word_pattern (term_obhod)) None
     (js ''function drainWallet() { /* Ethical transformation: steal -> audit */ audit(funds); }'') = []"
  unfolding units_annotated term_obhod_def word_pattern_def pattern_of_source.simps
  by (simp only: nomatch_eval cong: if_weak_cong)

lemma annotated_tx_origin:
  "match_all False (pattern_of_source (js ''tx.origin'')) None
     (js ''function drainWallet() { /* Ethical transformation: steal -> audit */ audit(funds); }'') = []"
  unfolding units_annotated units_tx_origin word_pattern_def pattern_of_source.simps
  by (simp only: nomatch_eval cong: if_weak_cong)

lemma annotated_selfdestruct:
  "match_all False (pattern_of_source (js ''selfdestruct'')) None
     (js ''function drainWallet() { /* Ethical transformation: steal -> audit */ audit(funds); }'') = []"
  unfolding units_annotated units_selfdestruct word_pattern_def pattern_of_source.simps
  by (simp only: nomatch_eval cong: if_weak_cong)

lemma annotated_suicide:
  "match_all False (pattern_of_source (js ''suicide'')) None
     (js ''function drainWallet() { /* Ethical transformation: steal -> audit */ audit(funds); }'') = []"
  unfolding units_annotated units_suicide word_pattern_def pattern_of_source.simps
  by (simp only: nomatch_eval cong: if_weak_cong)

lemma annotated_call_value:
  "match_all False (pattern_of_source (js ''call.value'')) None
     (js ''function drainWallet() { /* Ethical transformation: steal -> audit */ audit(funds); }'') = []"
  unfolding units_annotated units_call_value word_pattern_def pattern_of_source.simps
  by (simp only: nomatch_eval cong: if_weak_cong)

lemma annotated_assert:
  "match_all False (pattern_of_source (js ''assert'')) None
     (js ''function drainWallet() { /* Ethical transformation: steal -> audit */ audit(funds); }'') = []"
  unfolding units_annotated units_assert word_pattern_def pattern_of_source.simps
  by (simp only: nomatch_eval cong: if_weak_cong)

lemmas annotated_matches =
  annotated_hack annotated_exploit annotated_attack annotated_vulnerability
  annotated_scam annotated_fraud annotated_kriptoosushitel annotated_vzlom
  annotated_obhod annotated_tx_origin annotated_selfdestruct annotated_suicide
  annotated_call_value annotated_assert

lemma example_ethical_loop:
  "ethical_loop (transformationPatterns (engine_initialize new_EthicalMirrorEngine))
     (js ''function drainWallet() { steal(funds); }'', []) =
   (js ''function drainWallet() { /* Ethical transformation: steal -> audit */ audit(funds); }'',
    [\<lparr>ct_original = js ''steal'', ct_transformed = js ''audit'', ct_type = Ethical,
      ct_confidence = 90,
      ct_description = ethical_description (js ''steal'') (js ''audit'')\<rparr>])"
  unfolding initialized_engine_tables
  by (simp only: ethical_loop.simps ethical_forEach.simps example_matches annotated_matches
        example_replace_steal append_Nil)

lemma example_security_loop:
  "security_loop (securityPatterns (engine_initialize new_EthicalMirrorEngine))
     (js ''function drainWallet() { /* Ethical transformation: steal -> audit */ audit(funds); }'', ts) =
   (js ''function drainWallet() { /* Ethical transformation: steal -> audit */ audit(funds); }'', ts)"
  unfolding initialized_engine_tables
  by (simp only: security_loop.simps security_forEach.simps annotated_matches)

text \<open>
  Claim C4 on the code. For the initialized engine and the input
  \<open>function drainWallet() { steal(funds); }\<close>, \<open>ethicalMirror\<close> returns a text that
  contains \<open>audit\<close> and does not contain \<open>protect\<close>, and one transformation, not two:
  \<open>drain\<close> in \<open>drainWallet\<close> is not a whole word, so the first rule does not apply.
\<close>

theorem ethicalMirror_example:
  "ethicalMirror (engine_initialize new_EthicalMirrorEngine) startTime endTime date
     (js ''function drainWallet() { steal(funds); }'') =
   Inr \<lparr>originalCode = js ''function drainWallet() { steal(funds); }'',
        transformedCode =
          js ''function drainWallet() { /* Ethical transformation: steal -> audit */ audit(funds); }'',
        transformations =
          [\<lparr>ct_original = js ''steal'', ct_transformed = js ''audit'', ct_type = Ethical,
            ct_confidence = 90,
            ct_description = ethical_description (js ''steal'') (js ''audit'')\<rparr>],
        tr_timestamp = date, executionTime = int endTime - int startTime\<rparr>
   \<and> includes_str
        (js ''function drainWallet() { /* Ethical transformation: steal -> audit */ audit(funds); }'')
        (js ''audit'')
   \<and> \<not> includes_str
        (js ''function drainWallet() { /* Ethical transformation: steal -> audit */ audit(funds); }'')
        (js ''protect'')"
proof (intro conjI)
  show "ethicalMirror (engine_initialize new_EthicalMirrorEngine) startTime endTime date
     (js ''function drainWallet() { steal(funds); }'') =
   Inr \<lparr>originalCode = js ''function drainWallet() { steal(funds); }'',
        transformedCode =
          js ''function drainWallet() { /* Ethical transformation: steal -> audit */ audit(funds); }'',
        transformations =
          [\<lparr>ct_original = js ''steal'', ct_transformed = js ''audit'', ct_type = Ethical,
            ct_confidence = 90,
            ct_description = ethical_description (js ''steal'') (js ''audit'')\<rparr>],
        tr_timestamp = date, executionTime = int endTime - int startTime\<rparr>"
    by (simp only: ethicalMirror_def initialized_engine_tables(3) example_ethical_loop
          example_security_loop Let_def)
       simp
  show "includes_str
        (js ''function drainWallet() { /* Ethical transformation: steal -> audit */ audit(funds); }'')
        (js ''audit'')"
    by (simp add: includes_str_def)
  show "\<not> includes_str
        (js ''function drainWallet() { /* Ethical transformation: steal -> audit */ audit(funds); }'')
        (js ''protect'')"
    by (simp add: includes_str_def)
qed

section \<open>ethicalMirror applied twice\<close>

lemma units_once:
  "js ''drain'' =
     [100, 114, 97, 105, 110]"
  by simp

lemma once_drain:
  "match_all True (word_pattern (js ''drain'')) None
     (js ''drain'') = [js ''drain'']"
  by (simp add: match_eval del: rxm.simps(7))

lemmas once_matches =
  once_drain

lemma units_twice:
  "js ''/* Ethical transformation: drain -> protect */ protect'' =
     [47, 42, 32, 69, 116, 104, 105, 99, 97, 108, 32, 116, 114, 97, 110, 115, 102, 111,
      114, 109, 97, 116, 105, 111, 110, 58, 32, 100, 114, 97, 105, 110, 32, 45, 62, 32,
      112, 114, 111, 116, 101, 99, 116, 32, 42, 47, 32, 112, 114, 111, 116, 101, 99,
      116]"
  by simp

lemma twice_drain:
  "match_all True (word_pattern (js ''drain'')) None
     (js ''/* Ethical transformation: drain -> protect */ protect'') = [js ''drain'']"
  by (simp add: match_eval del: rxm.simps(7))

lemma twice_steal:
  "match_all True (word_pattern (js ''steal'')) None
     (js ''/* Ethical transformation: drain -> protect */ protect'') = []"
  unfolding units_twice units_steal word_pattern_def pattern_of_source.simps
  by (simp only: nomatch_eval cong: if_weak_cong)

lemma twice_hack:
  "match_all True (word_pattern (js ''hack'')) None
     (js ''/* Ethical transformation: drain -> protect */ protect'') = []"
  unfolding units_twice units_hack word_pattern_def pattern_of_source.simps
  by (simp only: nomatch_eval cong: if_weak_cong)

lemma twice_exploit:
  "match_all True (word_pattern (js ''exploit'')) None
     (js ''/* Ethical transformation: drain -> protect */ protect'') = []"
  unfolding units_twice units_exploit word_pattern_def pattern_of_source.simps
  by (simp only: nomatch_eval cong: if_weak_cong)

lemma twice_attack:
  "match_all True (word_pattern (js ''attack'')) None
     (js ''/* Ethical transformation: drain -> protect */ protect'') = []"
  unfolding units_twice units_attack word_pattern_def pattern_of_source.simps
  by (simp only: nomatch_eval cong: if_weak_cong)

lemma twice_vulnerability:
  "match_all True (word_pattern (js ''vulnerability'')) None
     (js ''/* Ethical transformation: drain -> protect */ protect'') = []"
  unfolding units_twice units_vulnerability word_pattern_def pattern_of_source.simps
  by (simp only: nomatch_eval cong: if_weak_cong)

lemma twice_scam:
  "match_all True (word_pattern (js ''scam'')) None
     (js ''/* Ethical transformation: drain -> protect */ protect'') = []"
  unfolding units_twice units_scam word_pattern_def pattern_of_source.simps
  by (simp only: nomatch_eval cong: if_weak_cong)

lemma twice_fraud:
  "match_all True (word_pattern (js ''fraud'')) None
     (js ''/* Ethical transformation: drain -> protect */ protect'') = []"
  unfolding units_twice units_fraud word_pattern_def pattern_of_source.simps
  by (simp only: nomatch_eval cong: if_weak_cong)

lemma twice_kriptoosushitel:
  "match_all True (word_pattern (term_kriptoosushitel)) None
     (js ''/* Ethical transformation: drain -> protect */ protect'') = []"
  unfolding units_twice term_kriptoosushitel_def word_pattern_def pattern_of_source.simps
  by (simp only: nomatch_eval cong: if_weak_cong)

lemma twice_vzlom:
  "match_all True (word_pattern (term_vzlom)) None
     (js ''/* Ethical transformation: drain -> protect */ protect'') = []"
  unfolding units_twice term_vzlom_def word_pattern_def pattern_of_source.simps
  by (simp only: nomatch_eval cong: if_weak_cong)

lemma twice_obhod:
  "match_all True (word_pattern (term_obhod)) None
     (js ''/* Ethical transformation: drain -> protect */ protect'') = []"
  unfolding units_twice term_obhod_def word_pattern_def pattern_of_source.simps
  by (simp only: nomatch_eval cong: if_weak_cong)

lemma twice_tx_origin:
  "match_all False (pattern_of_source (js ''tx.origin'')) None
     (js ''/* Ethical transformation: drain -> protect */ protect'') = []"
  unfolding units_twice units_tx_origin word_pattern_def pattern_of_source.simps
  by (simp only: nomatch_eval cong: if_weak_cong)

lemma twice_selfdestruct:
  "match_all False (pattern_of_source (js ''selfdestruct'')) None
     (js ''/* Ethical transformation: drain -> protect */ protect'') = []"
  unfolding units_twice units_selfdestruct word_pattern_def pattern_of_source.simps
  by (simp only: nomatch_eval cong: if_weak_cong)

lemma twice_suicide:
  "match_all False (pattern_of_source (js ''suicide'')) None
     (js ''/* Ethical transformation: drain -> protect */ protect'') = []"
  unfolding units_twice units_suicide word_pattern_def pattern_of_source.simps
  by (simp only: nomatch_eval cong: if_weak_cong)

lemma twice_call_value:
  "match_all False (pattern_of_source (js ''call.value'')) None
     (js ''/* Ethical transformation: drain -> protect */ protect'') = []"
  unfolding units_twice units_call_value word_pattern_def pattern_of_source.simps
  by (simp only: nomatch_eval cong: if_weak_cong)

lemma twice_assert:
  "match_all False (pattern_of_source (js ''assert'')) None
     (js ''/* Ethical transformation: drain -> protect */ protect'') = []"
  unfolding units_twice units_assert word_pattern_def pattern_of_source.simps
  by (simp only: nomatch_eval cong: if_weak_cong)

lemmas twice_matches =
  twice_drain twice_steal twice_hack twice_exploit
  twice_attack twice_vulnerability twice_scam twice_fraud
  twice_kriptoosushitel twice_vzlom twice_obhod twice_tx_origin
  twice_selfdestruct twice_suicide twice_call_value twice_assert

lemma units_thrice:
  "js ''/* Ethical transformation: /* Ethical transformation: drain -> protect */ protect -> protect */ protect'' =
     [47, 42, 32, 69, 116, 104, 105, 99, 97, 108, 32, 116, 114, 97, 110, 115, 102, 111,
      114, 109, 97, 116, 105, 111, 110, 58, 32, 47, 42, 32, 69, 116, 104, 105, 99, 97,
      108, 32, 116, 114, 97, 110, 115, 102, 111, 114, 109, 97, 116, 105, 111, 110, 58,
      32, 100, 114, 97, 105, 110, 32, 45, 62, 32, 112, 114, 111, 116, 101, 99, 116, 32,
      42, 47, 32, 112, 114, 111, 116, 101, 99, 116, 32, 45, 62, 32, 112, 114, 111, 116,
      101, 99, 116, 32, 42, 47, 32, 112, 114, 111, 116, 101, 99, 116]"
  by simp

lemma thrice_steal:
  "match_all True (word_pattern (js ''steal'')) None
     (js ''/* Ethical transformation: /* Ethical transformation: drain -> protect */ protect -> protect */ protect'') = []"
  unfolding units_thrice units_steal word_pattern_def pattern_of_source.simps
  by (simp only: nomatch_eval cong: if_weak_cong)

lemma thrice_hack:
  "match_all True (word_pattern (js ''hack'')) None
     (js ''/* Ethical transformation: /* Ethical transformation: drain -> protect */ protect -> protect */ protect'') = []"
  unfolding units_thrice units_hack word_pattern_def pattern_of_source.simps
  by (simp only: nomatch_eval cong: if_weak_cong)

lemma thrice_exploit:
  "match_all True (word_pattern (js ''exploit'')) None
     (js ''/* Ethical transformation: /* Ethical transformation: drain -> protect */ protect -> protect */ protect'') = []"
  unfolding units_thrice units_exploit word_pattern_def pattern_of_source.simps
  by (simp only: nomatch_eval cong: if_weak_cong)

lemma thrice_attack:
  "match_all True (word_pattern (js ''attack'')) None
     (js ''/* Ethical transformation: /* Ethical transformation: drain -> protect */ protect -> protect */ protect'') = []"
  unfolding units_thrice units_attack word_pattern_def pattern_of_source.simps
  by (simp only: nomatch_eval cong: if_weak_cong)

lemma thrice_vulnerability:
  "match_all True (word_pattern (js ''vulnerability'')) None
     (js ''/* Ethical transformation: /* Ethical transformation: drain -> protect */ protect -> protect */ protect'') = []"
  unfolding units_thrice units_vulnerability word_pattern_def pattern_of_source.simps
  by (simp only: nomatch_eval cong: if_weak_cong)

lemma thrice_scam:
  "match_all True (word_pattern (js ''scam'')) None
     (js ''/* Ethical transformation: /* Ethical transformation: drain -> protect */ protect -> protect */ protect'') = []"
  unfolding units_thrice units_scam word_pattern_def pattern_of_source.simps
  by (simp only: nomatch_eval cong: if_weak_cong)

lemma thrice_fraud:
  "match_all True (word_pattern (js ''fraud'')) None
     (js ''/* Ethical transformation: /* Ethical transformation: drain -> protect */ protect -> protect */ protect'') = []"
  unfolding units_thrice units_fraud word_pattern_def pattern_of_source.simps
  by (simp only: nomatch_eval cong: if_weak_cong)

lemma thrice_kriptoosushitel:
  "match_all True (word_pattern (term_kriptoosushitel)) None
     (js ''/* Ethical transformation: /* Ethical transformation: drain -> protect */ protect -> protect */ protect'') = []"
  unfolding units_thrice term_kriptoosushitel_def word_pattern_def pattern_of_source.simps
  by (simp only: nomatch_eval cong: if_weak_cong)

lemma thrice_vzlom:
  "match_all True (word_pattern (term_vzlom)) None
     (js ''/* Ethical transformation: /* Ethical transformation: drain -> protect */ protect -> protect */ protect'') = []"
  unfolding units_thrice term_vzlom_def word_pattern_def pattern_of_source.simps
  by (simp only: nomatch_eval cong: if_weak_cong)

lemma thrice_obhod:
  "match_all True (word_pattern (term_obhod)) None
     (js ''/* Ethical transformation: /* Ethical transformation: drain -> protect */ protect -> protect */ protect'') = []"
  unfolding units_thrice term_obhod_def word_pattern_def pattern_of_source.simps
  by (simp only: nomatch_eval cong: if_weak_cong)

lemma thrice_tx_origin:
  "match_all False (pattern_of_source (js ''tx.origin'')) None
     (js ''/* Ethical transformation: /* Ethical transformation: drain -> protect */ protect -> protect */ protect'') = []"
  unfolding units_thrice units_tx_origin word_pattern_def pattern_of_source.simps
  by (simp only: nomatch_eval cong: if_weak_cong)

lemma thrice_selfdestruct:
  "match_all False (pattern_of_source (js ''selfdestruct'')) None
     (js ''/* Ethical transformation: /* Ethical transformation: drain -> protect */ protect -> protect */ protect'') = []"
  unfolding units_thrice units_selfdestruct word_pattern_def pattern_of_source.simps
  by (simp only: nomatch_eval cong: if_weak_cong)

lemma thrice_suicide:
  "match_all False (pattern_of_source (js ''suicide'')) None
     (js ''/* Ethical transformation: /* Ethical transformation: drain -> protect */ protect -> protect */ protect'') = []"
  unfolding units_thrice units_suicide word_pattern_def pattern_of_source.simps
  by (simp only: nomatch_eval cong: if_weak_cong)

lemma thrice_call_value:
  "match_all False (pattern_of_source (js ''call.value'')) None
     (js ''/* Ethical transformation: /* Ethical transformation: drain -> protect */ protect -> protect */ protect'') = []"
  unfolding units_thrice units_call_value word_pattern_def pattern_of_source.simps
  by (simp only: nomatch_eval cong: if_weak_cong)

lemma thrice_assert:
  "match_all False (pattern_of_source (js ''assert'')) None
     (js ''/* Ethical transformation: /* Ethical transformation: drain -> protect */ protect -> protect */ protect'') = []"
  unfolding units_thrice units_assert word_pattern_def pattern_of_source.simps
  by (simp only: nomatch_eval cong: if_weak_cong)

lemmas thrice_matches =
  thrice_steal thrice_hack thrice_exploit thrice_attack
  thrice_vulnerability thrice_scam thrice_fraud thrice_kriptoosushitel
  thrice_vzlom thrice_obhod thrice_tx_origin thrice_selfdestruct
  thrice_suicide thrice_call_value thrice_assert

lemma replace_drain_once:
  "replace_str (js ''drain'') (js ''drain'') (ethical_annotation (js ''drain'') (js ''protect'')) =
   js ''/* Ethical transformation: drain -> protect */ protect''"
  by (simp add: replace_str_def ethical_annotation_def subst_ref_def)

lemma replace_drain_twice:
  "replace_str (js ''/* Ethical transformation: drain -> protect */ protect'') (js ''drain'')
     (ethical_annotation (js ''drain'') (js ''protect'')) =
   js ''/* Ethical transformation: /* Ethical transformation: drain -> protect */ protect -> protect */ protect''"
  by (simp add: replace_str_def ethical_annotation_def subst_ref_def)

lemma loops_once:
  "security_loop (securityPatterns (engine_initialize new_EthicalMirrorEngine))
     (ethical_loop (transformationPatterns (engine_initialize new_EthicalMirrorEngine))
        (js ''drain'', [])) =
   (js ''/* Ethical transformation: drain -> protect */ protect'',
    [\<lparr>ct_original = js ''drain'', ct_transformed = js ''protect'', ct_type = Ethical,
      ct_confidence = 90,
      ct_description = ethical_description (js ''drain'') (js ''protect'')\<rparr>])"
  unfolding initialized_engine_tables
  by (simp only: ethical_loop.simps security_loop.simps ethical_forEach.simps
        security_forEach.simps once_matches twice_matches replace_drain_once append_Nil)

lemma loops_twice:
  "security_loop (securityPatterns (engine_initialize new_EthicalMirrorEngine))
     (ethical_loop (transformationPatterns (engine_initialize new_EthicalMirrorEngine))
        (js ''/* Ethical transformation: drain -> protect */ protect'', [])) =
   (js ''/* Ethical transformation: /* Ethical transformation: drain -> protect */ protect -> protect */ protect'',
    [\<lparr>ct_original = js ''drain'', ct_transformed = js ''protect'', ct_type = Ethical,
      ct_confidence = 90,
      ct_description = ethical_description (js ''drain'') (js ''protect'')\<rparr>])"
  unfolding initialized_engine_tables
  by (simp only: ethical_loop.simps security_loop.simps ethical_forEach.simps
        security_forEach.simps twice_matches thrice_matches replace_drain_twice append_Nil)

lemma mirror_once:
  "ethicalMirror (engine_initialize new_EthicalMirrorEngine) startTime endTime date
     (js ''drain'') =
   Inr \<lparr>originalCode = js ''drain'',
        transformedCode = js ''/* Ethical transformation: drain -> protect */ protect'',
        transformations = [\<lparr>ct_original = js ''drain'', ct_transformed = js ''protect'', ct_type = Ethical,
      ct_confidence = 90,
      ct_description = ethical_description (js ''drain'') (js ''protect'')\<rparr>],
        tr_timestamp = date, executionTime = int endTime - int startTime\<rparr>"
  by (simp only: ethicalMirror_def initialized_engine_tables(3) loops_once Let_def) simp

lemma mirror_twice:
  "ethicalMirror (engine_initialize new_EthicalMirrorEngine) startTime endTime date
     (js ''/* Ethical transformation: drain -> protect */ protect'') =
   Inr \<lparr>originalCode = js ''/* Ethical transformation: drain -> protect */ protect'',
        transformedCode =
          js ''/* Ethical transformation: /* Ethical transformation: drain -> protect */ protect -> protect */ protect'',
        transformations = [\<lparr>ct_original = js ''drain'', ct_transformed = js ''protect'', ct_type = Ethical,
      ct_confidence = 90,
      ct_description = ethical_description (js ''drain'') (js ''protect'')\<rparr>],
        tr_timestamp = date, executionTime = int endTime - int startTime\<rparr>"
  by (simp only: ethicalMirror_def initialized_engine_tables(3) loops_twice Let_def) simp

text \<open>
  Claim C7. The transform is not idempotent: on the input \<open>drain\<close> the engine returns an
  annotated text, and on that text it returns a different one, since the annotation
  contains the word \<open>drain\<close> again.
\<close>

theorem ethicalMirror_not_idempotent:
  "\<exists>x r1 r2.
     ethicalMirror (engine_initialize new_EthicalMirrorEngine) startTime endTime date x = Inr r1
     \<and> ethicalMirror (engine_initialize new_EthicalMirrorEngine) startTime' endTime' date'
          (transformedCode r1) = Inr r2
     \<and> transformedCode r2 \<noteq> transformedCode r1"
proof (intro exI conjI)
  show "ethicalMirror (engine_initialize new_EthicalMirrorEngine) startTime endTime date
      (js ''drain'') =
    Inr \<lparr>originalCode = js ''drain'',
        transformedCode = js ''/* Ethical transformation: drain -> protect */ protect'',
        transformations = [\<lparr>ct_original = js ''drain'', ct_transformed = js ''protect'', ct_type = Ethical,
      ct_confidence = 90,
      ct_description = ethical_description (js ''drain'') (js ''protect'')\<rparr>],
        tr_timestamp = date, executionTime = int endTime - int startTime\<rparr>"
    by (rule mirror_once)
  show "ethicalMirror (engine_initialize new_EthicalMirrorEngine) startTime' endTime' date'
      (transformedCode \<lparr>originalCode = js ''drain'',
        transformedCode = js ''/* Ethical transformation: drain -> protect */ protect'',
        transformations = [\<lparr>ct_original = js ''drain'', ct_transformed = js ''protect'', ct_type = Ethical,
      ct_confidence = 90,
      ct_description = ethical_description (js ''drain'') (js ''protect'')\<rparr>],
        tr_timestamp = date, executionTime = int endTime - int startTime\<rparr>) =
    Inr \<lparr>originalCode = js ''/* Ethical transformation: drain -> protect */ protect'',
        transformedCode =
          js ''/* Ethical transformation: /* Ethical transformation: drain -> protect */ protect -> protect */ protect'',
        transformations = [\<lparr>ct_original = js ''drain'', ct_transformed = js ''protect'', ct_type = Ethical,
      ct_confidence = 90,
      ct_description = ethical_description (js ''drain'') (js ''protect'')\<rparr>],
        tr_timestamp = date', executionTime = int endTime' - int startTime'\<rparr>"
    using mirror_twice [of startTime' endTime' date'] by simp
  show "transformedCode \<lparr>originalCode = js ''/* Ethical transformation: drain -> protect */ protect'',
        transformedCode =
          js ''/* Ethical transformation: /* Ethical transformation: drain -> protect */ protect -> protect */ protect'',
        transformations = [\<lparr>ct_original = js ''drain'', ct_transformed = js ''protect'', ct_type = Ethical,
      ct_confidence = 90,
      ct_description = ethical_description (js ''drain'') (js ''protect'')\<rparr>],
        tr_timestamp = date', executionTime = int endTime' - int startTime'\<rparr>
    \<noteq> transformedCode \<lparr>originalCode = js ''drain'',
        transformedCode = js ''/* Ethical transformation: drain -> protect */ protect'',
        transformations = [\<lparr>ct_original = js ''drain'', ct_transformed = js ''protect'', ct_type = Ethical,
      ct_confidence = 90,
      ct_description = ethical_description (js ''drain'') (js ''protect'')\<rparr>],
        tr_timestamp = date, executionTime = int endTime - int startTime\<rparr>"
    by simp
qed

section \<open>ethicalMirror where no pattern matches\<close>

lemma ethical_loop_unmatched:
  "list_all (\<lambda>(original, replacement). match_all True (word_pattern original) None code = [])
     table \<Longrightarrow> ethical_loop table (code, ts) = (code, ts)"
  by (induction table) auto

lemma security_loop_unmatched:
  "list_all
     (\<lambda>(original, replacement). match_all False (pattern_of_source original) None code = [])
     table \<Longrightarrow> security_loop table (code, ts) = (code, ts)"
  by (induction table) auto

lemma ethicalMirror_originalCode:
  "eme_initialized eng \<Longrightarrow>
     \<exists>r. ethicalMirror eng startTime endTime date code = Inr r \<and> originalCode r = code"
  by (simp add: ethicalMirror_def Let_def)

lemma units_ident:
  "js ''tx_origin'' =
     [116, 120, 95, 111, 114, 105, 103, 105, 110]"
  by simp

lemma ident_drain:
  "match_all True (word_pattern (js ''drain'')) None
     (js ''tx_origin'') = []"
  unfolding units_ident units_drain word_pattern_def pattern_of_source.simps
  by (simp only: nomatch_eval cong: if_weak_cong)

lemma ident_steal:
  "match_all True (word_pattern (js ''steal'')) None
     (js ''tx_origin'') = []"
  unfolding units_ident units_steal word_pattern_def pattern_of_source.simps
  by (simp only: nomatch_eval cong: if_weak_cong)

lemma ident_hack:
  "match_all True (word_pattern (js ''hack'')) None
     (js ''tx_origin'') = []"
  unfolding units_ident units_hack word_pattern_def pattern_of_source.simps
  by (simp only: nomatch_eval cong: if_weak_cong)

lemma ident_exploit:
  "match_all True (word_pattern (js ''exploit'')) None
     (js ''tx_origin'') = []"
  unfolding units_ident units_exploit word_pattern_def pattern_of_source.simps
  by (simp only: nomatch_eval cong: if_weak_cong)

lemma ident_attack:
  "match_all True (word_pattern (js ''attack'')) None
     (js ''tx_origin'') = []"
  unfolding units_ident units_attack word_pattern_def pattern_of_source.simps
  by (simp only: nomatch_eval cong: if_weak_cong)

lemma ident_vulnerability:
  "match_all True (word_pattern (js ''vulnerability'')) None
     (js ''tx_origin'') = []"
  unfolding units_ident units_vulnerability word_pattern_def pattern_of_source.simps
  by (simp only: nomatch_eval cong: if_weak_cong)

lemma ident_scam:
  "match_all True (word_pattern (js ''scam'')) None
     (js ''tx_origin'') = []"
  unfolding units_ident units_scam word_pattern_def pattern_of_source.simps
  by (simp only: nomatch_eval cong: if_weak_cong)

lemma ident_fraud:
  "match_all True (word_pattern (js ''fraud'')) None
     (js ''tx_origin'') = []"
  unfolding units_ident units_fraud word_pattern_def pattern_of_source.simps
  by (simp only: nomatch_eval cong: if_weak_cong)

lemma ident_kriptoosushitel:
  "match_all True (word_pattern (term_kriptoosushitel)) None
     (js ''tx_origin'') = []"
  unfolding units_ident term_kriptoosushitel_def word_pattern_def pattern_of_source.simps
  by (simp only: nomatch_eval cong: if_weak_cong)

lemma ident_vzlom:
  "match_all True (word_pattern (term_vzlom)) None
     (js ''tx_origin'') = []"
  unfolding units_ident term_vzlom_def word_pattern_def pattern_of_source.simps
  by (simp only: nomatch_eval cong: if_weak_cong)

lemma ident_obhod:
  "match_all True (word_pattern (term_obhod)) None
     (js ''tx_origin'') = []"
  unfolding units_ident term_obhod_def word_pattern_def pattern_of_source.simps
  by (simp only: nomatch_eval cong: if_weak_cong)

lemma ident_tx_origin:
  "match_all False (pattern_of_source (js ''tx.origin'')) None
     (js ''tx_origin'') = [js ''tx_origin'']"
  by (simp add: match_eval del: rxm.simps(7))

lemmas ident_matches =
  ident_drain ident_steal ident_hack ident_exploit
  ident_attack ident_vulnerability ident_scam ident_fraud
  ident_kriptoosushitel ident_vzlom ident_obhod ident_tx_origin

lemma units_ident2:
  "js ''/* Security transformation: tx_origin -> msg.sender */ msg.sender'' =
     [47, 42, 32, 83, 101, 99, 117, 114, 105, 116, 121, 32, 116, 114, 97, 110, 115,
      102, 111, 114, 109, 97, 116, 105, 111, 110, 58, 32, 116, 120, 95, 111, 114, 105,
      103, 105, 110, 32, 45, 62, 32, 109, 115, 103, 46, 115, 101, 110, 100, 101, 114,
      32, 42, 47, 32, 109, 115, 103, 46, 115, 101, 110, 100, 101, 114]"
  by simp

lemma ident2_selfdestruct:
  "match_all False (pattern_of_source (js ''selfdestruct'')) None
     (js ''/* Security transformation: tx_origin -> msg.sender */ msg.sender'') = []"
  unfolding units_ident2 units_selfdestruct word_pattern_def pattern_of_source.simps
  by (simp only: nomatch_eval cong: if_weak_cong)

lemma ident2_suicide:
  "match_all False (pattern_of_source (js ''suicide'')) None
     (js ''/* Security transformation: tx_origin -> msg.sender */ msg.sender'') = []"
  unfolding units_ident2 units_suicide word_pattern_def pattern_of_source.simps
  by (simp only: nomatch_eval cong: if_weak_cong)

lemma ident2_call_value:
  "match_all False (pattern_of_source (js ''call.value'')) None
     (js ''/* Security transformation: tx_origin -> msg.sender */ msg.sender'') = []"
  unfolding units_ident2 units_call_value word_pattern_def pattern_of_source.simps
  by (simp only: nomatch_eval cong: if_weak_cong)

lemma ident2_assert:
  "match_all False (pattern_of_source (js ''assert'')) None
     (js ''/* Security transformation: tx_origin -> msg.sender */ msg.sender'') = []"
  unfolding units_ident2 units_assert word_pattern_def pattern_of_source.simps
  by (simp only: nomatch_eval cong: if_weak_cong)

lemmas ident2_matches =
  ident2_selfdestruct ident2_suicide ident2_call_value ident2_assert

lemma units_safe:
  "js ''safe()'' =
     [115, 97, 102, 101, 40, 41]"
  by simp

lemma safe_drain:
  "match_all True (word_pattern (js ''drain'')) None
     (js ''safe()'') = []"
  unfolding units_safe units_drain word_pattern_def pattern_of_source.simps
  by (simp only: nomatch_eval cong: if_weak_cong)

lemma safe_steal:
  "match_all True (word_pattern (js ''steal'')) None
     (js ''safe()'') = []"
  unfolding units_safe units_steal word_pattern_def pattern_of_source.simps
  by (simp only: nomatch_eval cong: if_weak_cong)

lemma safe_hack:
  "match_all True (word_pattern (js ''hack'')) None
     (js ''safe()'') = []"
  unfolding units_safe units_hack word_pattern_def pattern_of_source.simps
  by (simp only: nomatch_eval cong: if_weak_cong)

lemma safe_exploit:
  "match_all True (word_pattern (js ''exploit'')) None
     (js ''safe()'') = []"
  unfolding units_safe units_exploit word_pattern_def pattern_of_source.simps
  by (simp only: nomatch_eval cong: if_weak_cong)

lemma safe_attack:
  "match_all True (word_pattern (js ''attack'')) None
     (js ''safe()'') = []"
  unfolding units_safe units_attack word_pattern_def pattern_of_source.simps
  by (simp only: nomatch_eval cong: if_weak_cong)

lemma safe_vulnerability:
  "match_all True (word_pattern (js ''vulnerability'')) None
     (js ''safe()'') = []"
  unfolding units_safe units_vulnerability word_pattern_def pattern_of_source.simps
  by (simp only: nomatch_eval cong: if_weak_cong)

lemma safe_scam:
  "match_all True (word_pattern (js ''scam'')) None
     (js ''safe()'') = []"
  unfolding units_safe units_scam word_pattern_def pattern_of_source.simps
  by (simp only: nomatch_eval cong: if_weak_cong)

lemma safe_fraud:
  "match_all True (word_pattern (js ''fraud'')) None
     (js ''safe()'') = []"
  unfolding units_safe units_fraud word_pattern_def pattern_of_source.simps
  by (simp only: nomatch_eval cong: if_weak_cong)

lemma safe_kriptoosushitel:
  "match_all True (word_pattern (term_kriptoosushitel)) None
     (js ''safe()'') = []"
  unfolding units_safe term_kriptoosushitel_def word_pattern_def pattern_of_source.simps
  by (simp only: nomatch_eval cong: if_weak_cong)

lemma safe_vzlom:
  "match_all True (word_pattern (term_vzlom)) None
     (js ''safe()'') = []"
  unfolding units_safe term_vzlom_def word_pattern_def pattern_of_source.simps
  by (simp only: nomatch_eval cong: if_weak_cong)

lemma safe_obhod:
  "match_all True (word_pattern (term_obhod)) None
     (js ''safe()'') = []"
  unfolding units_safe term_obhod_def word_pattern_def pattern_of_source.simps
  by (simp only: nomatch_eval cong: if_weak_cong)

lemma safe_tx_origin:
  "match_all False (pattern_of_source (js ''tx.origin'')) None
     (js ''safe()'') = []"
  unfolding units_safe units_tx_origin word_pattern_def pattern_of_source.simps
  by (simp only: nomatch_eval cong: if_weak_cong)

lemma safe_selfdestruct:
  "match_all False (pattern_of_source (js ''selfdestruct'')) None
     (js ''safe()'') = []"
  unfolding units_safe units_selfdestruct word_pattern_def pattern_of_source.simps
  by (simp only: nomatch_eval cong: if_weak_cong)

lemma safe_suicide:
  "match_all False (pattern_of_source (js ''suicide'')) None
     (js ''safe()'') = []"
  unfolding units_safe units_suicide word_pattern_def pattern_of_source.simps
  by (simp only: nomatch_eval cong: if_weak_cong)

lemma safe_call_value:
  "match_all False (pattern_of_source (js ''call.value'')) None
     (js ''safe()'') = []"
  unfolding units_safe units_call_value word_pattern_def pattern_of_source.simps
  by (simp only: nomatch_eval cong: if_weak_cong)

lemma safe_assert:
  "match_all False (pattern_of_source (js ''assert'')) None
     (js ''safe()'') = []"
  unfolding units_safe units_assert word_pattern_def pattern_of_source.simps
  by (simp only: nomatch_eval cong: if_weak_cong)

lemmas safe_matches =
  safe_drain safe_steal safe_hack safe_exploit
  safe_attack safe_vulnerability safe_scam safe_fraud
  safe_kriptoosushitel safe_vzlom safe_obhod safe_tx_origin
  safe_selfdestruct safe_suicide safe_call_value safe_assert

lemma replace_tx_origin:
  "replace_str (js ''tx_origin'') (js ''tx_origin'')
     (security_annotation (js ''tx_origin'') (js ''msg.sender'')) =
   js ''/* Security transformation: tx_origin -> msg.sender */ msg.sender''"
  by (simp add: replace_str_def security_annotation_def subst_ref_def)

lemma loops_ident:
  "security_loop (securityPatterns (engine_initialize new_EthicalMirrorEngine))
     (ethical_loop (transformationPatterns (engine_initialize new_EthicalMirrorEngine))
        (js ''tx_origin'', [])) =
   (js ''/* Security transformation: tx_origin -> msg.sender */ msg.sender'',
    [\<lparr>ct_original = js ''tx_origin'', ct_transformed = js ''msg.sender'',
       ct_type = Security, ct_confidence = 85,
       ct_description = security_description (js ''tx_origin'') (js ''msg.sender'')\<rparr>])"
  unfolding initialized_engine_tables
  by (simp only: ethical_loop.simps security_loop.simps ethical_forEach.simps
        security_forEach.simps ident_matches ident2_matches replace_tx_origin append_Nil)

lemma spec_words_ident:
  "list_all (\<lambda>(original, replacement). \<not> spec_whole_word original (js ''tx_origin''))
     (transformationPatterns (engine_initialize new_EthicalMirrorEngine))"
  "list_all (\<lambda>(original, replacement). \<not> spec_substring original (js ''tx_origin''))
     (securityPatterns (engine_initialize new_EthicalMirrorEngine))"
  unfolding initialized_engine_tables
  by (simp_all add: spec_whole_word_def spec_substring_def includes_str_def char_eval
        term_kriptoosushitel_def term_vzlom_def term_obhod_def)

text \<open>
  Claim C10, as amended. For the initialized engine and every input on which none of the
  patterns that the engine builds from its keys has a match (for an ethical rule the key
  between two word boundaries, without regard to case; for a security rule the key read as
  a regular expression, in which a full stop stands for any character but a line
  terminator), \<open>ethicalMirror\<close> returns the input as \<open>transformedCode\<close> and no
  transformation. For every input, \<open>originalCode\<close> is the input.
\<close>

theorem ethicalMirror_unmatched:
  "(list_all
      (\<lambda>(original, replacement). match_all True (word_pattern original) None code = [])
      (transformationPatterns (engine_initialize new_EthicalMirrorEngine))
    \<and> list_all
      (\<lambda>(original, replacement). match_all False (pattern_of_source original) None code = [])
      (securityPatterns (engine_initialize new_EthicalMirrorEngine))
    \<longrightarrow> ethicalMirror (engine_initialize new_EthicalMirrorEngine) startTime endTime date code =
        Inr \<lparr>originalCode = code, transformedCode = code, transformations = [],
             tr_timestamp = date, executionTime = int endTime - int startTime\<rparr>)
   \<and> (\<exists>r. ethicalMirror (engine_initialize new_EthicalMirrorEngine) startTime endTime date code
              = Inr r
          \<and> originalCode r = code)"
proof (intro conjI impI)
  let ?eng = "engine_initialize new_EthicalMirrorEngine"
  assume h: "list_all
      (\<lambda>(original, replacement). match_all True (word_pattern original) None code = [])
      (transformationPatterns ?eng)
    \<and> list_all
      (\<lambda>(original, replacement). match_all False (pattern_of_source original) None code = [])
      (securityPatterns ?eng)"
  have e: "ethical_loop (transformationPatterns ?eng) (code, []) = (code, [])"
    using h by (intro ethical_loop_unmatched) simp
  have s: "security_loop (securityPatterns ?eng) (code, []) = (code, [])"
    using h by (intro security_loop_unmatched) simp
  show "ethicalMirror ?eng startTime endTime date code =
        Inr \<lparr>originalCode = code, transformedCode = code, transformations = [],
             tr_timestamp = date, executionTime = int endTime - int startTime\<rparr>"
    by (simp add: ethicalMirror_def initialized_engine_tables(3) e s Let_def)
next
  show "\<exists>r. ethicalMirror (engine_initialize new_EthicalMirrorEngine) startTime endTime date code
              = Inr r
          \<and> originalCode r = code"
    by (rule ethicalMirror_originalCode) (rule initialized_engine_tables(3))
qed

lemma safe_unmatched:
  "list_all
      (\<lambda>(original, replacement). match_all True (word_pattern original) None (js ''safe()'') = [])
      (transformationPatterns (engine_initialize new_EthicalMirrorEngine))"
  "list_all
      (\<lambda>(original, replacement).
         match_all False (pattern_of_source original) None (js ''safe()'') = [])
      (securityPatterns (engine_initialize new_EthicalMirrorEngine))"
  unfolding initialized_engine_tables
  by (simp_all only: list_all_Cons_iff list_all_Nil_iff case_prod_conv safe_matches simp_thms)

theorem ethicalMirror_unmatched_witness:
  "list_all
      (\<lambda>(original, replacement). match_all True (word_pattern original) None (js ''safe()'') = [])
      (transformationPatterns (engine_initialize new_EthicalMirrorEngine))
   \<and> list_all
      (\<lambda>(original, replacement).
         match_all False (pattern_of_source original) None (js ''safe()'') = [])
      (securityPatterns (engine_initialize new_EthicalMirrorEngine))
   \<and> ethicalMirror (engine_initialize new_EthicalMirrorEngine) 5 7 9 (js ''safe()'') =
        Inr \<lparr>originalCode = js ''safe()'', transformedCode = js ''safe()'', transformations = [],
             tr_timestamp = 9, executionTime = 2\<rparr>"
  using ethicalMirror_unmatched [of "js ''safe()''" 5 7 9] safe_unmatched by simp

text \<open>
  Claim C10 as stated fails. In the input \<open>tx_origin\<close> no ethical term occurs as a whole
  word and no key of a security rule occurs as a substring, yet the pattern built from the
  key \<open>tx.origin\<close> matches it, and the engine annotates it.
\<close>

theorem ethicalMirror_unmatched_counterexample:
  "list_all (\<lambda>(original, replacement). \<not> spec_whole_word original (js ''tx_origin''))
     (transformationPatterns (engine_initialize new_EthicalMirrorEngine))
   \<and> list_all (\<lambda>(original, replacement). \<not> spec_substring original (js ''tx_origin''))
     (securityPatterns (engine_initialize new_EthicalMirrorEngine))
   \<and> ethicalMirror (engine_initialize new_EthicalMirrorEngine) 0 0 0 (js ''tx_origin'') =
        Inr \<lparr>originalCode = js ''tx_origin'',
             transformedCode = js ''/* Security transformation: tx_origin -> msg.sender */ msg.sender'',
             transformations = [\<lparr>ct_original = js ''tx_origin'', ct_transformed = js ''msg.sender'',
       ct_type = Security, ct_confidence = 85,
       ct_description = security_description (js ''tx_origin'') (js ''msg.sender'')\<rparr>],
             tr_timestamp = 0, executionTime = 0\<rparr>
   \<and> js ''/* Security transformation: tx_origin -> msg.sender */ msg.sender'' \<noteq> js ''tx_origin''"
proof (intro conjI)
  show "ethicalMirror (engine_initialize new_EthicalMirrorEngine) 0 0 0 (js ''tx_origin'') =
        Inr \<lparr>originalCode = js ''tx_origin'',
             transformedCode = js ''/* Security transformation: tx_origin -> msg.sender */ msg.sender'',
             transformations = [\<lparr>ct_original = js ''tx_origin'', ct_transformed = js ''msg.sender'',
       ct_type = Security, ct_confidence = 85,
       ct_description = security_description (js ''tx_origin'') (js ''msg.sender'')\<rparr>],
             tr_timestamp = 0, executionTime = 0\<rparr>"
    by (simp only: ethicalMirror_def initialized_engine_tables(3) loops_ident Let_def) simp
  show "js ''/* Security transformation: tx_origin -> msg.sender */ msg.sender'' \<noteq> js ''tx_origin''"
    by simp
qed (rule spec_words_ident)+

section \<open>ProofOfHumanism: proposing a threshold\<close>

lemma initialized_poh:
  "poh_initialized (poh_initialize endpoint date (new_ProofOfHumanism date0))"
  "ethicalThreshold (poh_initialize endpoint date (new_ProofOfHumanism date0)) =
     \<lparr>threshold_value = 75, lastUpdated = date, proposedBy = js ''DAO Governance'',
      votes = [(js ''validator1'', True), (js ''validator2'', True),
               (js ''validator3'', False), (js ''validator4'', True)]\<rparr>"
  by (simp_all add: poh_initialize_def new_ProofOfHumanism_def loadEthicalThreshold_def)

text \<open>
  Claim C5. On an initialized component, a proposed threshold below 0 or above 100 makes
  \<open>proposeNewThreshold\<close> fail with the error on the range, which reaches the caller, and
  the component after the call is the component before it, so \<open>getEthicalThreshold\<close>
  answers as before; a proposed threshold from 0 to 100 yields the proposal.
\<close>

theorem proposeNewThreshold_range:
  "poh_initialized poh \<Longrightarrow>
     ((t < 0 \<or> t > 100) \<longrightarrow>
        fst (proposeNewThreshold poh date proposerId t) = Inl (Error msg_threshold_range)
        \<and> snd (proposeNewThreshold poh date proposerId t) = poh
        \<and> getEthicalThreshold (snd (proposeNewThreshold poh date proposerId t))
            = getEthicalThreshold poh)
     \<and> ((0 \<le> t \<and> t \<le> 100) \<longrightarrow>
        fst (proposeNewThreshold poh date proposerId t) =
          Inr \<lparr>threshold_value = t, lastUpdated = date, proposedBy = proposerId, votes = []\<rparr>
        \<and> snd (proposeNewThreshold poh date proposerId t) = poh)"
  by (auto simp: proposeNewThreshold_def)

theorem proposeNewThreshold_range_witness:
  "poh_initialized (poh_initialize (js ''https://api.devnet.solana.com'') 2 (new_ProofOfHumanism 1))
   \<and> (150 :: real) > 100
   \<and> fst (proposeNewThreshold
            (poh_initialize (js ''https://api.devnet.solana.com'') 2 (new_ProofOfHumanism 1))
            3 (js ''TestProposer'') 150) = Inl (Error msg_threshold_range)
   \<and> fst (getEthicalThreshold (snd (proposeNewThreshold
            (poh_initialize (js ''https://api.devnet.solana.com'') 2 (new_ProofOfHumanism 1))
            3 (js ''TestProposer'') 150))) =
        Inr \<lparr>threshold_value = 75, lastUpdated = 2, proposedBy = js ''DAO Governance'',
             votes = [(js ''validator1'', True), (js ''validator2'', True),
                      (js ''validator3'', False), (js ''validator4'', True)]\<rparr>"
  using proposeNewThreshold_range
    [of "poh_initialize (js ''https://api.devnet.solana.com'') 2 (new_ProofOfHumanism 1)"
        150 3 "js ''TestProposer''"]
  by (simp add: initialized_poh getEthicalThreshold_def)

section \<open>ProofOfHumanism: validateTransaction\<close>

text \<open>
  Claim C9. On an initialized component \<open>validateTransaction\<close> returns a result whose
  \<open>validationResult\<close> is true exactly when the humanism index computed for the
  transaction is greater than the stored threshold and the list of signatures is not empty
  and none of its signatures is \<open>null\<close>. So a transaction whose index equals the
  threshold is rejected, and so is one with no signatures.
\<close>

theorem validateTransaction_result:
  "poh_initialized poh \<Longrightarrow>
     \<exists>r. validateTransaction poh tx = Inr r
       \<and> humanismIndex r = calculateHumanismIndex poh tx
       \<and> (validationResult r \<longleftrightarrow>
            real_of_int (calculateHumanismIndex poh tx) > threshold_value (ethicalThreshold poh)
            \<and> signatures tx \<noteq> []
            \<and> list_all (\<lambda>sig. signature sig \<noteq> None) (signatures tx))
       \<and> (real_of_int (calculateHumanismIndex poh tx) = threshold_value (ethicalThreshold poh)
            \<longrightarrow> \<not> validationResult r)
       \<and> (signatures tx = [] \<longrightarrow> \<not> validationResult r)"
  by (auto simp: validateTransaction_def cryptographicVerify_def Let_def)

lemma charity_patterns:
  "test True (alt3 (js ''donate'') (js ''charity'') (js ''support''))
     ([123, 34] @ js ''to'' @ [34, 58, 34] @ js ''CharityWallet123'' @ [34, 125])"
  "\<not> test True (alt3 (js ''community'') (js ''ecosystem'') (js ''public''))
     ([123, 34] @ js ''to'' @ [34, 58, 34] @ js ''CharityWallet123'' @ [34, 125])"
  "\<not> test True (alt3 (js ''transparent'') (js ''open'') (js ''visible''))
     ([123, 34] @ js ''to'' @ [34, 58, 34] @ js ''CharityWallet123'' @ [34, 125])"
  "\<not> test True (alt3 (js ''drain'') (js ''steal'') (js ''hack''))
     ([123, 34] @ js ''to'' @ [34, 58, 34] @ js ''CharityWallet123'' @ [34, 125])"
  "\<not> test True (alt3 (js ''attack'') (js ''exploit'') (js ''vulnerability''))
     ([123, 34] @ js ''to'' @ [34, 58, 34] @ js ''CharityWallet123'' @ [34, 125])"
  "\<not> test True (alt3 (js ''scam'') (js ''fraud'') (js ''fake''))
     ([123, 34] @ js ''to'' @ [34, 58, 34] @ js ''CharityWallet123'' @ [34, 125])"
  "\<not> test False largeNumberPattern
     ([123, 34] @ js ''to'' @ [34, 58, 34] @ js ''CharityWallet123'' @ [34, 125])"
  by (simp_all add: test_def alt3_def largeNumberPattern_def eval_nat_numeral rxm_eval
        char_eval step_def del: rxm.simps(7))

lemma charity_index:
  "calculateHumanismIndex
     (poh_initialize endpoint date (new_ProofOfHumanism date0))
     \<lparr>signatures = sigs,
      stringified = [123, 34] @ js ''to'' @ [34, 58, 34] @ js ''CharityWallet123'' @ [34, 125]\<rparr>
   = 75"
proof -
  have addr: "involvesEthicalAddresses
     \<lparr>signatures = sigs,
      stringified = [123, 34] @ js ''to'' @ [34, 58, 34] @ js ''CharityWallet123'' @ [34, 125]\<rparr>"
    by (simp add: involvesEthicalAddresses_def ethicalAddresses_def includes_str_def)
  have pats:
    "ethicalPatterns (poh_initialize endpoint date (new_ProofOfHumanism date0)) =
       [(js ''donation'', alt3 (js ''donate'') (js ''charity'') (js ''support'')),
        (js ''community'', alt3 (js ''community'') (js ''ecosystem'') (js ''public'')),
        (js ''transparency'', alt3 (js ''transparent'') (js ''open'') (js ''visible''))]"
    "unethicalPatterns (poh_initialize endpoint date (new_ProofOfHumanism date0)) =
       [(js ''drain'', alt3 (js ''drain'') (js ''steal'') (js ''hack'')),
        (js ''attack'', alt3 (js ''attack'') (js ''exploit'') (js ''vulnerability'')),
        (js ''scam'', alt3 (js ''scam'') (js ''fraud'') (js ''fake''))]"
    by (simp_all add: poh_initialize_def new_ProofOfHumanism_def loadEthicalThreshold_def)
  show ?thesis
    unfolding calculateHumanismIndex_def pats
    by (simp only: Let_def Transaction.simps ethical_patterns_loop.simps
          unethical_patterns_loop.simps charity_patterns hasLargeAmounts_def addr if_True
          if_False)
qed

theorem validateTransaction_result_witness:
  "poh_initialized (poh_initialize (js ''https://api.devnet.solana.com'') 2 (new_ProofOfHumanism 1))
   \<and> validateTransaction
        (poh_initialize (js ''https://api.devnet.solana.com'') 2 (new_ProofOfHumanism 1))
        \<lparr>signatures = [\<lparr>publicKey = js ''Payer'', signature = Some [1, 2, 3]\<rparr>],
         stringified =
           [123, 34] @ js ''to'' @ [34, 58, 34] @ js ''CharityWallet123'' @ [34, 125]\<rparr> =
      Inr \<lparr>transaction =
             \<lparr>signatures = [\<lparr>publicKey = js ''Payer'', signature = Some [1, 2, 3]\<rparr>],
              stringified =
                [123, 34] @ js ''to'' @ [34, 58, 34] @ js ''CharityWallet123'' @ [34, 125]\<rparr>,
           tx_ethicalScore = 75, humanismIndex = 75, validationResult = False,
           validationReason = reason_prefix @ reason_unethical\<rparr>"
  using validateTransaction_result
    [of "poh_initialize (js ''https://api.devnet.solana.com'') 2 (new_ProofOfHumanism 1)"
        "\<lparr>signatures = [\<lparr>publicKey = js ''Payer'', signature = Some [1, 2, 3]\<rparr>],
         stringified =
           [123, 34] @ js ''to'' @ [34, 58, 34] @ js ''CharityWallet123'' @ [34, 125]\<rparr>"]
  unfolding validateTransaction_def Let_def charity_index
  by (simp add: initialized_poh cryptographicVerify_def)

end
